theory Spec2Isabelle
  imports Complex_Main "HOL-Library.AList"
begin

section \<open>Python values, dictionaries and string formatting\<close>

text \<open>
  The values that flow through the filters, the bound parameters and the cells of a
  result frame. Capital bounds are the floats of \<open>st.number_input\<close>; they are only
  tested against zero and passed on, so they are read as real numbers.
\<close>

datatype pyval = PNone | PStr string | PInt int | PFloat real

text \<open>Python truthiness, as used by \<open>if x:\<close> and \<open>x and y\<close>.\<close>

fun truthy :: "pyval \<Rightarrow> bool" where
  "truthy PNone = False"
| "truthy (PStr s) = (s \<noteq> [])"
| "truthy (PInt n) = (n \<noteq> 0)"
| "truthy (PFloat x) = (x \<noteq> 0)"

text \<open>Truthiness of an optional float: \<open>None\<close> and \<open>0.0\<close> are both falsy.\<close>

fun truthy_opt :: "real option \<Rightarrow> bool" where
  "truthy_opt None = False"
| "truthy_opt (Some x) = (x \<noteq> 0)"

datatype py_error = KeyError | IndexError

text \<open>
  A \<open>dict\<close> is an association list in insertion order; \<open>d[k] = v\<close> is
  \<open>AList.update k v d\<close>, which replaces the value of a key already present and appends
  a new key at the end.
\<close>

type_synonym params = "(string \<times> pyval) list"

text \<open>\<open>str(n)\<close> for the integers formatted into the query text.\<close>

definition digit_char :: "nat \<Rightarrow> char" where
  "digit_char d = ''0123456789'' ! d"

fun str_nat :: "nat \<Rightarrow> string" where
  "str_nat n = (if n < 10 then [digit_char n] else str_nat (n div 10) @ [digit_char (n mod 10)])"

declare str_nat.simps [simp del]

definition str_int :: "int \<Rightarrow> string" where
  "str_int i = (if i < 0 then CHR ''-'' # str_nat (nat (- i)) else str_nat (nat i))"

text \<open>\<open>sep.join(xs)\<close>.\<close>

fun join :: "string \<Rightarrow> string list \<Rightarrow> string" where
  "join sep [] = []"
| "join sep [x] = x"
| "join sep (x # y # ys) = x @ sep @ join sep (y # ys)"

section \<open>Configuration\<close>

definition MAX_OFFSET :: int where
  "MAX_OFFSET = 10000"

definition MAX_PAGINAS :: int where
  "MAX_PAGINAS = 500"

section \<open>The column mapping\<close>

text \<open>
  The six keys of \<open>mapeamento_colunas\<close>. The query builders are only reached with the
  dictionary that \<open>get_column_mapping\<close> returns when all six keys are present, so
  they take the mapping as a function from the six keys to column names:
  \<open>m Razao_social\<close> is \<open>mapeamento_colunas['razao_social']\<close>.
\<close>

datatype campo = Cnpj | Razao_social | Natureza_juridica | Qualificacao | Capital_social | Porte

type_synonym mapeamento = "campo \<Rightarrow> string"

section \<open>Query construction\<close>

text \<open>The placeholder list and the parameter loop of the size-class filter.\<close>

definition porte_placeholders :: "nat \<Rightarrow> string" where
  "porte_placeholders n = join '','' (map (\<lambda>i. ''%(porte_'' @ str_nat i @ '')s'') [0..<n])"

definition bind_portes :: "pyval list \<Rightarrow> params \<Rightarrow> params" where
  "bind_portes portes ps =
     fold (\<lambda>(i, porte) acc. AList.update (''porte_'' @ str_nat i) porte acc) (enumerate 0 portes) ps"

text \<open>
  \<open>build_query\<close> (app.py, lines 179 to 238). Each \<open>if\<close> of the source that extends
  \<open>query\<close> and \<open>params\<close> is one step of the chain below.
\<close>

definition build_query ::
  "string \<Rightarrow> pyval list \<Rightarrow> pyval \<Rightarrow> pyval \<Rightarrow> real option \<Rightarrow> real option \<Rightarrow>
   int \<Rightarrow> int \<Rightarrow> mapeamento \<Rightarrow> string \<times> params" where
  "build_query busca_nome portes_selecionados natureza_selecionada qualificacao_selecionada
     capital_min capital_max limit offset m =
   (let offset = (if offset > MAX_OFFSET then MAX_OFFSET else offset);
        query = [CHR 0x0A] @ ''    SELECT '' @ m Cnpj @ '' as cnpj_basico, '' @
                [CHR 0x0A] @ ''           '' @ m Razao_social @ '' as razao_social, '' @
                [CHR 0x0A] @ ''           '' @ m Natureza_juridica @ '' as natureza_juridica,'' @
                [CHR 0x0A] @ ''           '' @ m Qualificacao @ '' as qualificacao_responsavel, '' @
                [CHR 0x0A] @ ''           '' @ m Capital_social @ '' as capital_social, '' @
                [CHR 0x0A] @ ''           '' @ m Porte @ '' as porte'' @
                [CHR 0x0A] @ ''    FROM empresas'' @
                [CHR 0x0A] @ ''    WHERE 1=1'' @
                [CHR 0x0A] @ ''    '';
        params = [];
        (query, params) =
          (if busca_nome \<noteq> [] then
             (query @ '' AND UPPER('' @ m Razao_social @ '') LIKE UPPER(%(busca_nome)s)'',
              AList.update ''busca_nome'' (PStr (''%'' @ busca_nome @ ''%'')) params)
           else (query, params));
        (query, params) =
          (if portes_selecionados \<noteq> [] then
             (query @ '' AND '' @ m Porte @ '' IN ('' @
                porte_placeholders (length portes_selecionados) @ '')'',
              bind_portes portes_selecionados params)
           else (query, params));
        (query, params) =
          (if truthy natureza_selecionada \<and> natureza_selecionada \<noteq> PStr ''Todas'' then
             (query @ '' AND '' @ m Natureza_juridica @ '' = %(natureza)s'',
              AList.update ''natureza'' natureza_selecionada params)
           else (query, params));
        (query, params) =
          (if truthy qualificacao_selecionada \<and> qualificacao_selecionada \<noteq> PStr ''Todas'' then
             (query @ '' AND '' @ m Qualificacao @ '' = %(qualificacao)s'',
              AList.update ''qualificacao'' qualificacao_selecionada params)
           else (query, params));
        (query, params) =
          (if capital_min \<noteq> None then
             (query @ '' AND '' @ m Capital_social @ '' >= %(capital_min)s'',
              AList.update ''capital_min'' (PFloat (the capital_min)) params)
           else (query, params));
        (query, params) =
          (if capital_max \<noteq> None then
             (query @ '' AND '' @ m Capital_social @ '' <= %(capital_max)s'',
              AList.update ''capital_max'' (PFloat (the capital_max)) params)
           else (query, params));
        query = query @ '' ORDER BY '' @ m Razao_social;
        query = query @ '' LIMIT '' @ str_int limit @ '' OFFSET '' @ str_int offset
    in (query, params))"

text \<open>
  The query and the parameters that \<open>get_filtered_count\<close> builds before it calls
  \<open>run_query\<close> (app.py, lines 246 to 273).
\<close>

definition count_query ::
  "string \<Rightarrow> pyval list \<Rightarrow> pyval \<Rightarrow> pyval \<Rightarrow> real option \<Rightarrow> real option \<Rightarrow>
   mapeamento \<Rightarrow> string \<times> params" where
  "count_query busca_nome portes_selecionados natureza_selecionada qualificacao_selecionada
     capital_min capital_max m =
   (let query = ''SELECT COUNT(*) as total FROM empresas WHERE 1=1'';
        params = [];
        (query, params) =
          (if busca_nome \<noteq> [] then
             (query @ '' AND UPPER('' @ m Razao_social @ '') LIKE UPPER(%(busca_nome)s)'',
              AList.update ''busca_nome'' (PStr (''%'' @ busca_nome @ ''%'')) params)
           else (query, params));
        (query, params) =
          (if portes_selecionados \<noteq> [] then
             (query @ '' AND '' @ m Porte @ '' IN ('' @
                porte_placeholders (length portes_selecionados) @ '')'',
              bind_portes portes_selecionados params)
           else (query, params));
        (query, params) =
          (if truthy natureza_selecionada \<and> natureza_selecionada \<noteq> PStr ''Todas'' then
             (query @ '' AND '' @ m Natureza_juridica @ '' = %(natureza)s'',
              AList.update ''natureza'' natureza_selecionada params)
           else (query, params));
        (query, params) =
          (if truthy qualificacao_selecionada \<and> qualificacao_selecionada \<noteq> PStr ''Todas'' then
             (query @ '' AND '' @ m Qualificacao @ '' = %(qualificacao)s'',
              AList.update ''qualificacao'' qualificacao_selecionada params)
           else (query, params));
        (query, params) =
          (if capital_min \<noteq> None then
             (query @ '' AND '' @ m Capital_social @ '' >= %(capital_min)s'',
              AList.update ''capital_min'' (PFloat (the capital_min)) params)
           else (query, params));
        (query, params) =
          (if capital_max \<noteq> None then
             (query @ '' AND '' @ m Capital_social @ '' <= %(capital_max)s'',
              AList.update ''capital_max'' (PFloat (the capital_max)) params)
           else (query, params))
    in (query, params))"

text \<open>\<open>is_heavy_query\<close> (app.py, lines 278 to 295).\<close>

definition is_heavy_query ::
  "string \<Rightarrow> pyval list \<Rightarrow> pyval \<Rightarrow> pyval \<Rightarrow> real option \<Rightarrow> real option \<Rightarrow> bool" where
  "is_heavy_query busca_nome portes natureza qualif capital_min capital_max =
   (if busca_nome \<noteq> [] \<or> truthy_opt capital_min \<or> truthy_opt capital_max then False
    else if natureza \<noteq> PStr ''Todas'' \<or> qualif \<noteq> PStr ''Todas'' then False
    else if portes \<noteq> [] \<and> length portes \<le> 2 then False
    else True)"

section \<open>Query execution\<close>

text \<open>
  A \<open>DataFrame\<close> is its named columns, in order; its length is the length of its index,
  read off the first column. \<open>pd.DataFrame()\<close> has no column.
\<close>

type_synonym dataframe = "(string \<times> pyval list) list"

definition df_len :: "dataframe \<Rightarrow> nat" where
  "df_len df = (case df of [] \<Rightarrow> 0 | (_, col) # _ \<Rightarrow> length col)"

definition df_empty :: "dataframe \<Rightarrow> bool" where
  "df_empty df = (df = [] \<or> df_len df = 0)"

definition empty_frame :: dataframe where
  "empty_frame = []"

text \<open>
  What \<open>engine.connect()\<close> followed by \<open>pd.read_sql_query\<close> does for a query and its
  parameters: it raises, or it returns a frame; \<open>Frame df t\<close> carries the elapsed time
  \<open>t\<close> already rounded to two places. \<open>get_engine()\<close> gives \<open>None\<close> when the engine
  could not be created.
\<close>

datatype read_result = Raises string | Frame dataframe real

type_synonym engine = "string \<Rightarrow> params option \<Rightarrow> read_result"

text \<open>What the page shows besides the data: the calls of \<open>st.error\<close>, \<open>st.warning\<close> and \<open>st.info\<close>.\<close>

datatype notice =
    QueryError string
  | MappingError
  | StructureUnavailable
  | HeavyQueryWarning
  | LimitedNavigation
  | MaxPagesInfo

text \<open>\<open>run_query\<close> (app.py, lines 53 to 70).\<close>

definition run_query :: "engine option \<Rightarrow> string \<Rightarrow> params option \<Rightarrow> (dataframe \<times> real) \<times> notice list" where
  "run_query engine query ps =
     (case engine of
        Some e \<Rightarrow>
          (case e query ps of
             Frame df query_time \<Rightarrow> ((df, query_time), [])
           | Raises err \<Rightarrow> ((empty_frame, 0), [QueryError err]))
      | None \<Rightarrow> ((empty_frame, 0), []))"

text \<open>
  \<open>get_filtered_count\<close> (app.py, lines 240 to 276): the query of \<open>count_query\<close> is run
  and the first cell of the column \<open>total\<close> is returned, or 0 for an empty frame.
\<close>

definition get_filtered_count ::
  "engine option \<Rightarrow> string \<Rightarrow> pyval list \<Rightarrow> pyval \<Rightarrow> pyval \<Rightarrow> real option \<Rightarrow> real option \<Rightarrow>
   mapeamento \<Rightarrow> (py_error + pyval) \<times> notice list" where
  "get_filtered_count engine busca_nome portes_selecionados natureza_selecionada
     qualificacao_selecionada capital_min capital_max m =
   (let (query, params) = count_query busca_nome portes_selecionados natureza_selecionada
                            qualificacao_selecionada capital_min capital_max m;
        ((df, _), out) = run_query engine query (Some params)
    in (if \<not> df_empty df then
          (case map_of df ''total'' of
             None \<Rightarrow> Inl KeyError
           | Some col \<Rightarrow> (case col of [] \<Rightarrow> Inl IndexError | cell # _ \<Rightarrow> Inr cell))
        else Inr (PInt 0),
        out))"

section \<open>Schema resolution\<close>

text \<open>
  \<open>str.lower()\<close> on the ASCII letters; other characters are left as they are. No
  result below depends on which characters \<open>lower\<close> changes.
\<close>

definition char_lower :: "char \<Rightarrow> char" where
  "char_lower c =
     (case map_of (zip ''ABCDEFGHIJKLMNOPQRSTUVWXYZ'' ''abcdefghijklmnopqrstuvwxyz'') c of
        Some l \<Rightarrow> l
      | None \<Rightarrow> c)"

definition lower :: "string \<Rightarrow> string" where
  "lower s = map char_lower s"

definition colunas_necessarias :: "(campo \<times> string list) list" where
  "colunas_necessarias =
     [(Cnpj, [''cnpj_basico'', ''cnpj'', ''cnpj_base'', ''numero_cnpj'']),
      (Razao_social, [''razao_social'', ''nome_empresarial'', ''nome'', ''razao'']),
      (Natureza_juridica, [''natureza_juridica'', ''natureza'', ''nat_juridica'']),
      (Qualificacao, [''qualificacao_responsavel'', ''qualificacao'', ''qual_responsavel'']),
      (Capital_social, [''capital_social'', ''capital'', ''valor_capital'']),
      (Porte, [''porte'', ''porte_empresa'', ''cod_porte''])]"

text \<open>
  \<open>df_estrutura\<close>, the frame of \<open>get_table_structure\<close>, is read as its rows
  \<open>(column_name, data_type)\<close>; the empty frame has no row.
\<close>

type_synonym estrutura = "(string \<times> string) list"

definition colunas_disponiveis :: "estrutura \<Rightarrow> string list" where
  "colunas_disponiveis df_estrutura = map (\<lambda>(column_name, _). lower column_name) df_estrutura"

text \<open>
  The inner loop of \<open>get_column_mapping\<close>: the first \<open>opcao\<close> found among the lower-cased
  column names ends the loop with \<open>nome_real\<close>, the \<open>column_name\<close> of the first row whose
  lower-cased name is the lower-cased \<open>opcao\<close>. That row exists after the membership
  test, so \<open>.iloc[0]\<close> does not raise.
\<close>

fun primeira_opcao :: "estrutura \<Rightarrow> string list \<Rightarrow> string option" where
  "primeira_opcao df_estrutura [] = None"
| "primeira_opcao df_estrutura (opcao # opcoes) =
     (if lower opcao \<in> set (colunas_disponiveis df_estrutura) then
        map_option fst (find (\<lambda>(column_name, _). lower column_name = lower opcao) df_estrutura)
      else primeira_opcao df_estrutura opcoes)"

text \<open>\<open>get_column_mapping\<close> (app.py, lines 90 to 118).\<close>

definition get_column_mapping :: "estrutura \<Rightarrow> (campo \<times> string) list option" where
  "get_column_mapping df_estrutura =
     (if df_estrutura = [] then None
      else
        let mapeamento_colunas =
              fold (\<lambda>(campo, opcoes) acc.
                      case primeira_opcao df_estrutura opcoes of
                        Some nome_real \<Rightarrow> AList.update campo nome_real acc
                      | None \<Rightarrow> acc)
                colunas_necessarias []
        in if length mapeamento_colunas = 6 then Some mapeamento_colunas else None)"

text \<open>Reading \<open>mapeamento_colunas[campo]\<close> in a dictionary that has the key.\<close>

definition as_mapeamento :: "(campo \<times> string) list \<Rightarrow> mapeamento" where
  "as_mapeamento d = (\<lambda>campo. the (map_of d campo))"

section \<open>Pagination\<close>

text \<open>The offset of the current page (app.py, lines 454 to 460).\<close>

definition page_offset :: "int \<Rightarrow> int \<Rightarrow> int \<times> notice list" where
  "page_offset current_page registros_por_pagina =
     (let offset = (current_page - 1) * registros_por_pagina
      in if offset > MAX_OFFSET then (MAX_OFFSET, [LimitedNavigation]) else (offset, []))"

text \<open>
  \<open>total_filtrado\<close> (app.py, lines 473 to 485): the exact count after a filter submission
  or beyond page 1, otherwise inferred from the page just read, or unknown.
\<close>

definition total_filtrado ::
  "engine option \<Rightarrow> bool \<Rightarrow> int \<Rightarrow> string \<Rightarrow> pyval list \<Rightarrow> pyval \<Rightarrow> pyval \<Rightarrow> real option \<Rightarrow>
   real option \<Rightarrow> mapeamento \<Rightarrow> dataframe \<Rightarrow> int \<Rightarrow> int \<Rightarrow> (py_error + pyval option) \<times> notice list" where
  "total_filtrado engine aplicar_filtros current_page busca_nome portes_selecionados
     natureza_selecionada qualificacao_selecionada capital_min capital_max m
     df_resultados registros_por_pagina offset =
   (if aplicar_filtros \<or> current_page > 1 then
      (case get_filtered_count engine busca_nome portes_selecionados natureza_selecionada
              qualificacao_selecionada capital_min capital_max m of
         (Inl e, out) \<Rightarrow> (Inl e, out)
       | (Inr cell, out) \<Rightarrow> (Inr (Some cell), out))
    else if int (df_len df_resultados) < registros_por_pagina then
      (Inr (Some (PInt (offset + int (df_len df_resultados)))), [])
    else (Inr None, []))"

text \<open>
  The navigation block (app.py, lines 541 to 572), for a total that is an integer or
  \<open>None\<close>: the number of pages, which buttons are disabled, and whether the page-limit
  note is shown. It is rendered only for a non-empty page of results and a total larger
  than one page.
\<close>

record navegacao =
  total_paginas :: int
  primeira_disabled :: bool
  anterior_disabled :: bool
  proxima_disabled :: bool
  ultima_disabled :: bool
  limite_info :: bool

definition num_paginas :: "int \<Rightarrow> int \<Rightarrow> int" where
  "num_paginas total_f registros_por_pagina = min ((total_f - 1) div registros_por_pagina + 1) MAX_PAGINAS"

definition controles :: "dataframe \<Rightarrow> int option \<Rightarrow> int \<Rightarrow> int \<Rightarrow> navegacao option" where
  "controles df_resultados total_f registros_por_pagina current_page =
     (if \<not> df_empty df_resultados \<and> total_f \<noteq> None \<and> the total_f \<noteq> 0 \<and>
         the total_f > registros_por_pagina
      then
        let paginas = num_paginas (the total_f) registros_por_pagina
        in Some \<lparr> total_paginas = paginas,
                  primeira_disabled = (current_page = 1),
                  anterior_disabled = (current_page = 1),
                  proxima_disabled = (current_page \<ge> paginas),
                  ultima_disabled = (current_page \<ge> paginas),
                  limite_info = (paginas \<ge> MAX_PAGINAS) \<rparr>
      else None)"

text \<open>
  What a click on a navigation button does to the page in a run that renders the
  navigation block; a disabled button cannot be clicked.
\<close>

datatype botao = Primeira | Anterior | Proxima | Ultima

fun clicar :: "botao \<Rightarrow> navegacao \<Rightarrow> int \<Rightarrow> int" where
  "clicar Primeira nav current_page = (if primeira_disabled nav then current_page else 1)"
| "clicar Anterior nav current_page = (if anterior_disabled nav then current_page else current_page - 1)"
| "clicar Proxima nav current_page = (if proxima_disabled nav then current_page else current_page + 1)"
| "clicar Ultima nav current_page = (if ultima_disabled nav then current_page else total_paginas nav)"

text \<open>
  A click is handled by the next run of the script, a run without a filter submission:
  the button is read only where that run renders the navigation block. \<open>nav\<close> is the
  block of that run, \<open>None\<close> when it is not rendered, and then the click is lost. On
  page 1 that run computes no exact count, so it does not render the block.
\<close>

definition handle_click :: "botao \<Rightarrow> navegacao option \<Rightarrow> int \<Rightarrow> int" where
  "handle_click b nav current_page =
     (case nav of None \<Rightarrow> current_page | Some shown \<Rightarrow> clicar b shown current_page)"

section \<open>The page run\<close>

text \<open>
  \<open>get_table_structure\<close> (app.py, lines 76 to 88) runs the query over
  \<open>information_schema.columns\<close> through \<open>run_query\<close>. What the database does with that
  query is an input: it raises, or it returns the rows \<open>(column_name, data_type)\<close>
  (no row also when there is no engine). As in \<open>run_query\<close>, an exception leaves the
  empty frame and an error on the page; the page shows that error at each call.
\<close>

datatype structure_read = StructureRaises string | StructureRows estrutura

definition get_table_structure :: "structure_read \<Rightarrow> estrutura \<times> notice list" where
  "get_table_structure leitura =
     (case leitura of
        StructureRows df_estrutura \<Rightarrow> (df_estrutura, [])
      | StructureRaises err \<Rightarrow> ([], [QueryError err]))"

text \<open>
  One run of the script from the schema check to the total (app.py, lines 305 to 317 and
  440 to 485), for the widget values and the session state it starts from. The structure
  is read inside \<open>get_column_mapping\<close> and again for the panel that shows it. The script
  stops after the schema check when no mapping is returned, with the mapping error and,
  for an empty structure, the note that the structure could not be read.
\<close>

record resultado =
  r_query :: string
  r_params :: params
  r_offset :: int
  r_df_resultados :: dataframe
  r_query_time :: real
  r_total_filtrado :: "py_error + pyval option"
  r_avisos :: "notice list"

datatype flow = Stopped "notice list" | Rendered resultado

record entrada =
  busca_nome :: string
  portes_selecionados :: "pyval list"
  natureza_selecionada :: pyval
  qualificacao_selecionada :: pyval
  capital_min :: "real option"
  capital_max :: "real option"
  registros_por_pagina :: int
  aplicar_filtros :: bool
  current_page :: int

definition main :: "structure_read \<Rightarrow> engine option \<Rightarrow> entrada \<Rightarrow> flow" where
  "main leitura engine inp =
     (let (df_estrutura, err_estrutura) = get_table_structure leitura
      in case get_column_mapping df_estrutura of
        None \<Rightarrow>
          Stopped (err_estrutura @ [MappingError] @ err_estrutura @
                   (if df_estrutura = [] then [StructureUnavailable] else []))
      | Some d \<Rightarrow>
          let m = as_mapeamento d;
              heavy =
                (if aplicar_filtros inp \<and>
                    is_heavy_query (busca_nome inp) (portes_selecionados inp)
                      (natureza_selecionada inp) (qualificacao_selecionada inp)
                      (capital_min inp) (capital_max inp)
                 then [HeavyQueryWarning] else []);
              page = (if aplicar_filtros inp then 1 else current_page inp);
              (offset, limited) = page_offset page (registros_por_pagina inp);
              (query, ps) =
                build_query (busca_nome inp) (portes_selecionados inp) (natureza_selecionada inp)
                  (qualificacao_selecionada inp) (capital_min inp) (capital_max inp)
                  (registros_por_pagina inp) offset m;
              ((df_resultados, query_time), err) = run_query engine query (Some ps);
              (tot, err_count) =
                total_filtrado engine (aplicar_filtros inp) page (busca_nome inp)
                  (portes_selecionados inp) (natureza_selecionada inp)
                  (qualificacao_selecionada inp) (capital_min inp) (capital_max inp) m
                  df_resultados (registros_por_pagina inp) offset
          in Rendered \<lparr> r_query = query, r_params = ps, r_offset = offset,
                         r_df_resultados = df_resultados, r_query_time = query_time,
                         r_total_filtrado = tot,
                         r_avisos = err_estrutura @ err_estrutura @ heavy @ limited @ err @
                                    err_count \<rparr>)"

section \<open>Notions of the specification\<close>

text \<open>
  The shared predicate builder that the specification asks for (sections 4.3 and 9): an
  ordered list of steps, each a condition, a clause text and a parameter binding, applied
  in order. The two builders of the source are compared with it.
\<close>

definition where_steps ::
  "string \<Rightarrow> pyval list \<Rightarrow> pyval \<Rightarrow> pyval \<Rightarrow> real option \<Rightarrow> real option \<Rightarrow>
   mapeamento \<Rightarrow> (bool \<times> string \<times> (params \<Rightarrow> params)) list" where
  "where_steps b p n q cmin cmax m =
    [(b \<noteq> [], '' AND UPPER('' @ m Razao_social @ '') LIKE UPPER(%(busca_nome)s)'',
        AList.update ''busca_nome'' (PStr (''%'' @ b @ ''%''))),
     (p \<noteq> [], '' AND '' @ m Porte @ '' IN ('' @ porte_placeholders (length p) @ '')'',
        bind_portes p),
     (truthy n \<and> n \<noteq> PStr ''Todas'', '' AND '' @ m Natureza_juridica @ '' = %(natureza)s'',
        AList.update ''natureza'' n),
     (truthy q \<and> q \<noteq> PStr ''Todas'', '' AND '' @ m Qualificacao @ '' = %(qualificacao)s'',
        AList.update ''qualificacao'' q),
     (cmin \<noteq> None, '' AND '' @ m Capital_social @ '' >= %(capital_min)s'',
        AList.update ''capital_min'' (PFloat (the cmin))),
     (cmax \<noteq> None, '' AND '' @ m Capital_social @ '' <= %(capital_max)s'',
        AList.update ''capital_max'' (PFloat (the cmax)))]"

definition where_clause ::
  "string \<Rightarrow> pyval list \<Rightarrow> pyval \<Rightarrow> pyval \<Rightarrow> real option \<Rightarrow> real option \<Rightarrow>
   mapeamento \<Rightarrow> string \<times> params" where
  "where_clause b p n q cmin cmax m =
     fold (\<lambda>(c, t, f) (w, ps). if c then (w @ t, f ps) else (w, ps))
       (where_steps b p n q cmin cmax m) ([], [])"

text \<open>The text before the predicates of the row query, up to \<open>WHERE\<close>.\<close>

definition select_head :: "mapeamento \<Rightarrow> string" where
  "select_head m =
     [CHR 0x0A] @ ''    SELECT '' @ m Cnpj @ '' as cnpj_basico, '' @
     [CHR 0x0A] @ ''           '' @ m Razao_social @ '' as razao_social, '' @
     [CHR 0x0A] @ ''           '' @ m Natureza_juridica @ '' as natureza_juridica,'' @
     [CHR 0x0A] @ ''           '' @ m Qualificacao @ '' as qualificacao_responsavel, '' @
     [CHR 0x0A] @ ''           '' @ m Capital_social @ '' as capital_social, '' @
     [CHR 0x0A] @ ''           '' @ m Porte @ '' as porte'' @
     [CHR 0x0A] @ ''    FROM empresas'' @ [CHR 0x0A] @ ''    ''"

text \<open>
  Which filters a filter set has, and how many size classes: what two filter sets share
  when they differ in their values only.
\<close>

definition filter_shape ::
  "string \<Rightarrow> pyval list \<Rightarrow> pyval \<Rightarrow> pyval \<Rightarrow> real option \<Rightarrow> real option \<Rightarrow>
   bool \<times> nat \<times> bool \<times> bool \<times> bool \<times> bool" where
  "filter_shape b p n q cmin cmax =
     (b \<noteq> [], length p, truthy n \<and> n \<noteq> PStr ''Todas'', truthy q \<and> q \<noteq> PStr ''Todas'',
      cmin \<noteq> None, cmax \<noteq> None)"

text \<open>
  The heavy-query classification in the words of the specification: no substring, no
  capital bound, both selections at the sentinel, and no size class or more than two.
\<close>

definition potentially_heavy ::
  "string \<Rightarrow> pyval list \<Rightarrow> pyval \<Rightarrow> pyval \<Rightarrow> real option \<Rightarrow> real option \<Rightarrow> bool" where
  "potentially_heavy b p n q cmin cmax =
     (b = [] \<and> cmin = None \<and> cmax = None \<and> n = PStr ''Todas'' \<and> q = PStr ''Todas'' \<and>
      (p = [] \<or> length p > 2))"

text \<open>
  The match that the database applies to the bound pattern is not part of the
  application. It is the \<open>LIKE\<close> of SQL as PostgreSQL defines it: \<open>%\<close> stands for any
  sequence of characters, \<open>_\<close> for any one character, a backslash makes the next
  character literal, and every other character stands for itself. The query applies
  \<open>UPPER\<close> to both sides first; the patterns and names of the examples below are in
  upper case already.
\<close>

fun like_match :: "string \<Rightarrow> string \<Rightarrow> bool" where
  "like_match [] s = (s = [])"
| "like_match (p # ps) [] = (p = CHR ''%'' \<and> like_match ps [])"
| "like_match (p # ps) (c # cs) =
     (if p = CHR ''%'' then like_match ps (c # cs) \<or> like_match (p # ps) cs
      else if p = CHR ''_'' then like_match ps cs
      else if p = CHR 0x5C then (case ps of [] \<Rightarrow> False | e # ps' \<Rightarrow> e = c \<and> like_match ps' cs)
      else p = c \<and> like_match ps cs)"

text \<open>Plain substring containment: \<open>s\<close> occurs in \<open>name\<close>.\<close>

fun starts_with :: "string \<Rightarrow> string \<Rightarrow> bool" where
  "starts_with [] name = True"
| "starts_with (x # xs) [] = False"
| "starts_with (x # xs) (c # cs) = (x = c \<and> starts_with xs cs)"

fun contains :: "string \<Rightarrow> string \<Rightarrow> bool" where
  "contains s [] = (s = [])"
| "contains s (c # cs) = (starts_with s (c # cs) \<or> contains s cs)"

text \<open>The characters with a meaning of their own in a \<open>LIKE\<close> pattern.\<close>

definition like_special :: "char \<Rightarrow> bool" where
  "like_special c = (c = CHR ''%'' \<or> c = CHR ''_'' \<or> c = CHR 0x5C)"

text \<open>The name under which the size class at position \<open>i\<close> is bound.\<close>

definition porte_key :: "nat \<Rightarrow> string" where
  "porte_key i = ''porte_'' @ str_nat i"

text \<open>
  What the outer loop of \<open>get_column_mapping\<close> leaves in the dictionary: one entry for
  each field that has a matching candidate, in the order of the fields.
\<close>

definition resolvidas :: "estrutura \<Rightarrow> (campo \<times> string list) list \<Rightarrow> (campo \<times> string) list" where
  "resolvidas df cn =
     List.map_filter (\<lambda>(campo, opcoes). map_option (Pair campo) (primeira_opcao df opcoes)) cn"

text \<open>
  The clause text and the bindings that the six steps produce, written out: the form to
  which both builders of the source and the shared builder reduce.
\<close>

definition where_text ::
  "string \<Rightarrow> pyval list \<Rightarrow> pyval \<Rightarrow> pyval \<Rightarrow> real option \<Rightarrow> real option \<Rightarrow> mapeamento \<Rightarrow> string" where
  "where_text b p n q cmin cmax m =
     (if b \<noteq> [] then '' AND UPPER('' @ m Razao_social @ '') LIKE UPPER(%(busca_nome)s)'' else []) @
     (if p \<noteq> [] then '' AND '' @ m Porte @ '' IN ('' @ porte_placeholders (length p) @ '')'' else []) @
     (if truthy n \<and> n \<noteq> PStr ''Todas'' then '' AND '' @ m Natureza_juridica @ '' = %(natureza)s'' else []) @
     (if truthy q \<and> q \<noteq> PStr ''Todas'' then '' AND '' @ m Qualificacao @ '' = %(qualificacao)s'' else []) @
     (if cmin \<noteq> None then '' AND '' @ m Capital_social @ '' >= %(capital_min)s'' else []) @
     (if cmax \<noteq> None then '' AND '' @ m Capital_social @ '' <= %(capital_max)s'' else [])"

definition where_binds ::
  "string \<Rightarrow> pyval list \<Rightarrow> pyval \<Rightarrow> pyval \<Rightarrow> real option \<Rightarrow> real option \<Rightarrow> params" where
  "where_binds b p n q cmin cmax =
     (if cmax \<noteq> None then AList.update ''capital_max'' (PFloat (the cmax)) else id)
     ((if cmin \<noteq> None then AList.update ''capital_min'' (PFloat (the cmin)) else id)
     ((if truthy q \<and> q \<noteq> PStr ''Todas'' then AList.update ''qualificacao'' q else id)
     ((if truthy n \<and> n \<noteq> PStr ''Todas'' then AList.update ''natureza'' n else id)
     ((if p \<noteq> [] then bind_portes p else id)
     ((if b \<noteq> [] then AList.update ''busca_nome'' (PStr (''%'' @ b @ ''%'')) else id) [])))))"

section \<open>Evaluation of the string helpers\<close>

lemma str_nat_small: "n < 10 \<Longrightarrow> str_nat n = [digit_char n]"
  by (simp add: str_nat.simps)

lemma str_nat_big: "\<not> n < 10 \<Longrightarrow> str_nat n = str_nat (n div 10) @ [digit_char (n mod 10)]"
  by (subst str_nat.simps) simp

lemmas str_eval = str_int_def str_nat_small str_nat_big digit_char_def

section \<open>The two query builders\<close>

lemma if_pair: "(if c then (a, b) else (q, p)) = (if c then a else q, if c then b else p)"
  by simp
lemma if_app: "(if c then q @ t else q) = q @ (if c then t else [])"
  by simp
lemma if_fun: "(if c then f x else x) = (if c then f else id) x"
  by simp

lemma count_query_nf:
  "count_query b p n q cmin cmax m =
    (''SELECT COUNT(*) as total FROM empresas WHERE 1=1'' @ where_text b p n q cmin cmax m,
     where_binds b p n q cmin cmax)"
  by (simp only: count_query_def where_text_def where_binds_def
        Let_def if_pair if_app if_fun split_conv append_assoc)

lemma build_query_nf:
  "build_query b p n q cmin cmax limit offset m =
    (select_head m @ ''WHERE 1=1'' @ [CHR 0x0A] @ ''    '' @ where_text b p n q cmin cmax m @
       '' ORDER BY '' @ m Razao_social @
       '' LIMIT '' @ str_int limit @ '' OFFSET '' @
       str_int (if offset > MAX_OFFSET then MAX_OFFSET else offset),
     where_binds b p n q cmin cmax)"
  apply (simp only: build_query_def where_text_def where_binds_def select_head_def
        Let_def if_pair if_app if_fun split_conv append_assoc)
  apply (simp only: append_Cons append_Nil)
  done

lemma where_clause_nf:
  "where_clause b p n q cmin cmax m = (where_text b p n q cmin cmax m, where_binds b p n q cmin cmax)"
  by (simp only: where_clause_def where_steps_def where_text_def where_binds_def
        fold_simps split_conv if_pair if_app if_fun append_assoc append_Nil id_apply)

text \<open>
  The decimal digits of a number determine it, so the names of the size-class parameters
  are distinct and each assignment of the parameter loop appends.
\<close>

lemma below_ten:
  "(a::nat) < 10 \<Longrightarrow> a = 0 \<or> a = 1 \<or> a = 2 \<or> a = 3 \<or> a = 4 \<or> a = 5 \<or> a = 6 \<or> a = 7 \<or> a = 8 \<or> a = 9"
  by arith

lemma digit_char_code: "a < 10 \<Longrightarrow> of_char (digit_char a) = 48 + a"
  by (drule below_ten) (auto simp: digit_char_def)

lemma digit_char_inj:
  assumes "a < 10" and "b < 10" and "digit_char a = digit_char b"
  shows "a = b"
proof -
  have "(of_char (digit_char a) :: nat) = of_char (digit_char b)"
    by (simp only: assms(3))
  then have "48 + a = 48 + b"
    by (simp only: digit_char_code [OF assms(1)] digit_char_code [OF assms(2)])
  then show ?thesis by simp
qed

lemma str_nat_nonempty: "str_nat n \<noteq> []"
  by (subst str_nat.simps) simp

lemma str_nat_inj: "str_nat n = str_nat m \<Longrightarrow> n = m"
proof (induction n arbitrary: m rule: str_nat.induct)
  case (1 n)
  show ?case
  proof (cases "n < 10")
    case n: True
    show ?thesis
    proof (cases "m < 10")
      case True
      with n "1.prems" show ?thesis
        by (simp add: str_nat_small digit_char_inj)
    next
      case False
      with n "1.prems" str_nat_nonempty [of "m div 10"] show ?thesis
        by (simp add: str_nat_small str_nat_big)
    qed
  next
    case n: False
    show ?thesis
    proof (cases "m < 10")
      case True
      with n "1.prems" str_nat_nonempty [of "n div 10"] show ?thesis
        by (simp add: str_nat_small str_nat_big)
    next
      case False
      with n "1.prems" have e: "str_nat (n div 10) = str_nat (m div 10)"
        "digit_char (n mod 10) = digit_char (m mod 10)"
        by (simp_all add: str_nat_big)
      from "1.IH" [OF n e(1)] have "n div 10 = m div 10" .
      moreover from e(2) have "n mod 10 = m mod 10"
        by (intro digit_char_inj) simp_all
      ultimately show ?thesis by (metis div_mult_mod_eq)
    qed
  qed
qed

lemma porte_key_inj: "porte_key i = porte_key j \<Longrightarrow> i = j"
  by (simp add: porte_key_def str_nat_inj)

lemma update_new_key: "k \<notin> fst ` set al \<Longrightarrow> AList.update k v al = al @ [(k, v)]"
  by (induction al) auto

lemma bind_loop:
  assumes "\<forall>i\<ge>k. porte_key i \<notin> fst ` set acc"
  shows "fold (\<lambda>(i, porte) acc. AList.update (porte_key i) porte acc) (enumerate k xs) acc
       = acc @ map (\<lambda>(i, porte). (porte_key i, porte)) (enumerate k xs)"
  using assms
proof (induction xs arbitrary: k acc)
  case Nil
  then show ?case by simp
next
  case (Cons x xs)
  from Cons.prems have new: "porte_key k \<notin> fst ` set acc" by simp
  have "\<forall>i\<ge>Suc k. porte_key i \<notin> fst ` set (acc @ [(porte_key k, x)])"
  proof (intro allI impI)
    fix i assume "Suc k \<le> i"
    then have "porte_key i \<noteq> porte_key k" using porte_key_inj [of i k] by auto
    moreover from \<open>Suc k \<le> i\<close> Cons.prems have "porte_key i \<notin> fst ` set acc" by simp
    ultimately show "porte_key i \<notin> fst ` set (acc @ [(porte_key k, x)])" by auto
  qed
  from Cons.IH [OF this] new show ?case
    by (simp add: update_new_key)
qed

lemma bind_portes_explicit:
  assumes "\<forall>i. porte_key i \<notin> fst ` set ps"
  shows "bind_portes portes ps = ps @ map (\<lambda>(i, porte). (porte_key i, porte)) (enumerate 0 portes)"
proof -
  have "bind_portes portes ps
      = fold (\<lambda>(i, porte) acc. AList.update (porte_key i) porte acc) (enumerate 0 portes) ps"
    by (simp add: bind_portes_def porte_key_def)
  with bind_loop [of 0 ps portes] assms show ?thesis by simp
qed

lemma cond_update:
  "k \<notin> fst ` set al \<Longrightarrow>
   (if c then AList.update k v else id) al = al @ (if c then [(k, v)] else [])"
  by (simp add: update_new_key)

lemma porte_key_other:
  "porte_key i \<noteq> ''busca_nome''" "porte_key i \<noteq> ''natureza''" "porte_key i \<noteq> ''qualificacao''"
  "porte_key i \<noteq> ''capital_min''" "porte_key i \<noteq> ''capital_max''"
  by (simp_all add: porte_key_def)

lemma fst_porte_entries:
  "fst ` set (map (\<lambda>(i, porte). (porte_key i, porte)) xs) \<subseteq> range porte_key"
  by auto

lemma where_binds_explicit:
  "where_binds b p n q cmin cmax =
     (if b \<noteq> [] then [(''busca_nome'', PStr (''%'' @ b @ ''%''))] else []) @
     map (\<lambda>(i, porte). (porte_key i, porte)) (enumerate 0 p) @
     (if truthy n \<and> n \<noteq> PStr ''Todas'' then [(''natureza'', n)] else []) @
     (if truthy q \<and> q \<noteq> PStr ''Todas'' then [(''qualificacao'', q)] else []) @
     (if cmin \<noteq> None then [(''capital_min'', PFloat (the cmin))] else []) @
     (if cmax \<noteq> None then [(''capital_max'', PFloat (the cmax))] else [])"
proof -
  define s1 where "s1 = (if b \<noteq> [] then AList.update ''busca_nome'' (PStr (''%'' @ b @ ''%'')) else id) []"
  define s2 where "s2 = (if p \<noteq> [] then bind_portes p else id) s1"
  define s3 where "s3 = (if truthy n \<and> n \<noteq> PStr ''Todas'' then AList.update ''natureza'' n else id) s2"
  define s4 where "s4 = (if truthy q \<and> q \<noteq> PStr ''Todas'' then AList.update ''qualificacao'' q else id) s3"
  define s5 where "s5 = (if cmin \<noteq> None then AList.update ''capital_min'' (PFloat (the cmin)) else id) s4"
  define s6 where "s6 = (if cmax \<noteq> None then AList.update ''capital_max'' (PFloat (the cmax)) else id) s5"
  have w: "where_binds b p n q cmin cmax = s6"
    unfolding where_binds_def s1_def s2_def s3_def s4_def s5_def s6_def ..
  have e1: "s1 = (if b \<noteq> [] then [(''busca_nome'', PStr (''%'' @ b @ ''%''))] else [])"
    unfolding s1_def by simp
  have k1: "fst ` set s1 \<subseteq> {''busca_nome''}"
    unfolding e1 by (auto split: if_splits)
  have "\<forall>i. porte_key i \<notin> fst ` set s1"
    using k1 porte_key_other(1) by blast
  then have "bind_portes p s1 = s1 @ map (\<lambda>(i, porte). (porte_key i, porte)) (enumerate 0 p)"
    by (rule bind_portes_explicit)
  then have e2: "s2 = s1 @ map (\<lambda>(i, porte). (porte_key i, porte)) (enumerate 0 p)"
    unfolding s2_def by (cases "p = []") simp_all
  have k2: "fst ` set s2 \<subseteq> {''busca_nome''} \<union> range porte_key"
    unfolding e2 using k1 fst_porte_entries [of "enumerate 0 p"]
    by (simp only: set_append image_Un) blast
  have "''natureza'' \<notin> fst ` set s2"
    using k2 porte_key_other(2) by (auto simp del: porte_key_other)
  then have e3: "s3 = s2 @ (if truthy n \<and> n \<noteq> PStr ''Todas'' then [(''natureza'', n)] else [])"
    unfolding s3_def by (rule cond_update)
  have k3: "fst ` set s3 \<subseteq> {''busca_nome'', ''natureza''} \<union> range porte_key"
    unfolding e3 using k2 by (auto split: if_splits)
  have "''qualificacao'' \<notin> fst ` set s3"
    using k3 porte_key_other(3) by auto
  then have e4: "s4 = s3 @ (if truthy q \<and> q \<noteq> PStr ''Todas'' then [(''qualificacao'', q)] else [])"
    unfolding s4_def by (rule cond_update)
  have k4: "fst ` set s4 \<subseteq> {''busca_nome'', ''natureza'', ''qualificacao''} \<union> range porte_key"
    unfolding e4 using k3 by (auto split: if_splits)
  have "''capital_min'' \<notin> fst ` set s4"
    using k4 porte_key_other(4) by auto
  then have e5: "s5 = s4 @ (if cmin \<noteq> None then [(''capital_min'', PFloat (the cmin))] else [])"
    unfolding s5_def by (rule cond_update)
  have k5: "fst ` set s5 \<subseteq> {''busca_nome'', ''natureza'', ''qualificacao'', ''capital_min''} \<union> range porte_key"
    unfolding e5 using k4 by (auto split: if_splits)
  have "''capital_max'' \<notin> fst ` set s5"
    using k5 porte_key_other(5) by auto
  then have e6: "s6 = s5 @ (if cmax \<noteq> None then [(''capital_max'', PFloat (the cmax))] else [])"
    unfolding s6_def by (rule cond_update)
  show ?thesis
    by (simp only: w e6 e5 e4 e3 e2 e1 append_assoc)
qed

text \<open>
  Claim C1. For every filter set the row query of \<open>build_query\<close> and the count query of
  \<open>get_filtered_count\<close> carry the same predicate text after their \<open>WHERE 1=1\<close>, the
  one of the shared builder, and bind the same parameters. The row query has its column
  list before and its ordering and pagination after; between \<open>WHERE 1=1\<close> and its
  predicates stand the line break and indentation of its template. The count query
  selects \<open>COUNT(*)\<close> and has nothing after the predicates.
\<close>

theorem count_query_shares_where_clause:
  "build_query b p n q cmin cmax limit offset m =
     (select_head m @ ''WHERE 1=1'' @ [CHR 0x0A] @ ''    '' @
        fst (where_clause b p n q cmin cmax m) @
        '' ORDER BY '' @ m Razao_social @
        '' LIMIT '' @ str_int limit @ '' OFFSET '' @ str_int (min offset MAX_OFFSET),
      snd (where_clause b p n q cmin cmax m))
   \<and> count_query b p n q cmin cmax m =
     (''SELECT COUNT(*) as total FROM empresas '' @ ''WHERE 1=1'' @
        fst (where_clause b p n q cmin cmax m),
      snd (where_clause b p n q cmin cmax m))
   \<and> snd (build_query b p n q cmin cmax limit offset m) = snd (count_query b p n q cmin cmax m)"
proof -
  have m: "(if offset > MAX_OFFSET then MAX_OFFSET else offset) = min offset MAX_OFFSET"
    by (simp add: min_def)
  have c: "''SELECT COUNT(*) as total FROM empresas '' @ ''WHERE 1=1'' @ w
         = ''SELECT COUNT(*) as total FROM empresas WHERE 1=1'' @ w" for w
    by (simp only: append_Cons append_Nil)
  show ?thesis
    by (simp only: build_query_nf count_query_nf where_clause_nf fst_conv snd_conv m c simp_thms)
qed

theorem count_query_shares_where_clause_witness:
  "count_query ''ACME'' [PStr ''01'', PStr ''03''] (PStr ''Todas'') (PInt 2062) (Some 0) None (\<lambda>c. ''col'') =
     (''SELECT COUNT(*) as total FROM empresas WHERE 1=1 AND UPPER(col) LIKE UPPER(%(busca_nome)s) AND col IN (%(porte_0)s,%(porte_1)s) AND col = %(qualificacao)s AND col >= %(capital_min)s'',
      [(''busca_nome'', PStr ''%ACME%''), (''porte_0'', PStr ''01''), (''porte_1'', PStr ''03''),
       (''qualificacao'', PInt 2062), (''capital_min'', PFloat 0)])
   \<and> snd (build_query ''ACME'' [PStr ''01'', PStr ''03''] (PStr ''Todas'') (PInt 2062) (Some 0) None 20 15000 (\<lambda>c. ''col''))
     = [(''busca_nome'', PStr ''%ACME%''), (''porte_0'', PStr ''01''), (''porte_1'', PStr ''03''),
        (''qualificacao'', PInt 2062), (''capital_min'', PFloat 0)]"
  using count_query_shares_where_clause [of "''ACME''" "[PStr ''01'', PStr ''03'']" "PStr ''Todas''" "PInt 2062" "Some 0" None
          20 15000 "\<lambda>c. ''col''"]
  by (simp add: where_clause_nf where_text_def where_binds_explicit porte_key_def
        porte_placeholders_def str_eval)

lemma where_text_shape:
  assumes "filter_shape b p n q cmin cmax = filter_shape b' p' n' q' cmin' cmax'"
  shows "where_text b p n q cmin cmax m = where_text b' p' n' q' cmin' cmax' m"
proof -
  from assms have "(b \<noteq> []) = (b' \<noteq> [])" "length p = length p'"
    "(truthy n \<and> n \<noteq> PStr ''Todas'') = (truthy n' \<and> n' \<noteq> PStr ''Todas'')"
    "(truthy q \<and> q \<noteq> PStr ''Todas'') = (truthy q' \<and> q' \<noteq> PStr ''Todas'')"
    "(cmin \<noteq> None) = (cmin' \<noteq> None)" "(cmax \<noteq> None) = (cmax' \<noteq> None)"
    unfolding filter_shape_def by simp_all
  moreover from \<open>length p = length p'\<close> have "(p \<noteq> []) = (p' \<noteq> [])" by auto
  ultimately show ?thesis
    unfolding where_text_def by (simp only:)
qed

text \<open>
  Claim C2. The query text of \<open>build_query\<close> depends on which filters are present and
  on the number of selected size classes only: two filter sets of the same shape give the
  same text whatever their values are, so no value can change the structure of the query.
  The values are in the parameters, each under its own name: the substring between the
  two markers, each size class at its position, the two selections and the two bounds.
\<close>

theorem values_only_in_parameters:
  "(filter_shape b p n q cmin cmax = filter_shape b' p' n' q' cmin' cmax' \<longrightarrow>
      fst (build_query b p n q cmin cmax limit offset m)
        = fst (build_query b' p' n' q' cmin' cmax' limit offset m))
   \<and> snd (build_query b p n q cmin cmax limit offset m) =
       (if b \<noteq> [] then [(''busca_nome'', PStr (''%'' @ b @ ''%''))] else []) @
       map (\<lambda>(i, porte). (''porte_'' @ str_nat i, porte)) (enumerate 0 p) @
       (if truthy n \<and> n \<noteq> PStr ''Todas'' then [(''natureza'', n)] else []) @
       (if truthy q \<and> q \<noteq> PStr ''Todas'' then [(''qualificacao'', q)] else []) @
       (if cmin \<noteq> None then [(''capital_min'', PFloat (the cmin))] else []) @
       (if cmax \<noteq> None then [(''capital_max'', PFloat (the cmax))] else [])"
proof (intro conjI impI)
  assume h: "filter_shape b p n q cmin cmax = filter_shape b' p' n' q' cmin' cmax'"
  show "fst (build_query b p n q cmin cmax limit offset m)
        = fst (build_query b' p' n' q' cmin' cmax' limit offset m)"
    by (simp only: build_query_nf fst_conv where_text_shape [OF h])
next
  show "snd (build_query b p n q cmin cmax limit offset m) =
       (if b \<noteq> [] then [(''busca_nome'', PStr (''%'' @ b @ ''%''))] else []) @
       map (\<lambda>(i, porte). (''porte_'' @ str_nat i, porte)) (enumerate 0 p) @
       (if truthy n \<and> n \<noteq> PStr ''Todas'' then [(''natureza'', n)] else []) @
       (if truthy q \<and> q \<noteq> PStr ''Todas'' then [(''qualificacao'', q)] else []) @
       (if cmin \<noteq> None then [(''capital_min'', PFloat (the cmin))] else []) @
       (if cmax \<noteq> None then [(''capital_max'', PFloat (the cmax))] else [])"
    by (simp only: build_query_nf snd_conv where_binds_explicit porte_key_def)
qed

theorem values_only_in_parameters_witness:
  "filter_shape ''ACME'' [PStr ''01''] (PStr ''Todas'') (PInt 2062) None (Some 5)
     = filter_shape ''x' OR '1'='1'' [PStr ''05''] (PStr []) (PStr ''a;b'') None (Some 0)
   \<and> fst (build_query ''ACME'' [PStr ''01''] (PStr ''Todas'') (PInt 2062) None (Some 5) 20 0 (\<lambda>c. ''col''))
     = fst (build_query ''x' OR '1'='1'' [PStr ''05''] (PStr []) (PStr ''a;b'') None (Some 0) 20 0 (\<lambda>c. ''col''))
   \<and> snd (build_query ''x' OR '1'='1'' [PStr ''05''] (PStr []) (PStr ''a;b'') None (Some 0) 20 0 (\<lambda>c. ''col''))
     = [(''busca_nome'', PStr ''%x' OR '1'='1%''), (''porte_0'', PStr ''05''),
        (''qualificacao'', PStr ''a;b''), (''capital_max'', PFloat 0)]"
proof -
  have h: "filter_shape ''ACME'' [PStr ''01''] (PStr ''Todas'') (PInt 2062) None (Some 5)
     = filter_shape ''x' OR '1'='1'' [PStr ''05''] (PStr []) (PStr ''a;b'') None (Some 0)"
    by (simp add: filter_shape_def)
  have p: "snd (build_query ''x' OR '1'='1'' [PStr ''05''] (PStr []) (PStr ''a;b'') None (Some 0) 20 0 (\<lambda>c. ''col''))
     = [(''busca_nome'', PStr ''%x' OR '1'='1%''), (''porte_0'', PStr ''05''),
        (''qualificacao'', PStr ''a;b''), (''capital_max'', PFloat 0)]"
    using values_only_in_parameters [of "''x' OR '1'='1''" "[PStr ''05'']" "PStr []" "PStr ''a;b''" None "Some 0"
        "''x' OR '1'='1''" "[PStr ''05'']" "PStr []" "PStr ''a;b''" None "Some 0" 20 0 "\<lambda>c. ''col''"]
    by (simp add: str_eval)
  from h p
    values_only_in_parameters [of "''ACME''" "[PStr ''01'']" "PStr ''Todas''" "PInt 2062" None "Some 5"
        "''x' OR '1'='1''" "[PStr ''05'']" "PStr []" "PStr ''a;b''" None "Some 0" 20 0 "\<lambda>c. ''col''"]
  show ?thesis by (simp only: simp_thms)
qed

section \<open>The heavy-query classification\<close>

lemma is_heavy_query_iff:
  "is_heavy_query b p n q cmin cmax =
     (b = [] \<and> \<not> truthy_opt cmin \<and> \<not> truthy_opt cmax \<and> n = PStr ''Todas'' \<and> q = PStr ''Todas'' \<and>
      (p = [] \<or> length p > 2))"
  unfolding is_heavy_query_def by auto

lemma is_heavy_query_agrees:
  "cmin \<noteq> Some 0 \<Longrightarrow> cmax \<noteq> Some 0 \<Longrightarrow>
   is_heavy_query b p n q cmin cmax = potentially_heavy b p n q cmin cmax"
  unfolding is_heavy_query_iff potentially_heavy_def
  by (cases cmin; cases cmax) auto

text \<open>
  Claim C3. \<open>is_heavy_query\<close> is meant to classify a filter set as potentially heavy
  exactly when it has no substring, no capital bound, both selections at \<open>Todas\<close> and
  no size class or more than two. It tests the capital bounds by truthiness, so a filter
  set whose minimum capital is 0 has a capital bound and is classified heavy all the
  same: the source and the classification in the words of the specification differ at
  this input.
\<close>

theorem is_heavy_query_zero_bound:
  "is_heavy_query [] [] (PStr ''Todas'') (PStr ''Todas'') (Some 0) None = True
   \<and> potentially_heavy [] [] (PStr ''Todas'') (PStr ''Todas'') (Some 0) None = False"
  by (simp add: is_heavy_query_def potentially_heavy_def)

theorem is_heavy_query_zero_bound_witness:
  "is_heavy_query [] [] (PStr ''Todas'') (PStr ''Todas'') (Some 0) None
   \<and> \<not> potentially_heavy [] [] (PStr ''Todas'') (PStr ''Todas'') (Some 0) None
   \<and> \<not> is_heavy_query [] [] (PStr ''Todas'') (PStr ''Todas'') (Some 1000) None"
  using is_heavy_query_zero_bound by (simp add: is_heavy_query_def)

section \<open>A capital bound of zero\<close>

lemma where_text_only_min:
  "where_text [] [] (PStr ''Todas'') (PStr ''Todas'') (Some x) None m
     = '' AND '' @ m Capital_social @ '' >= %(capital_min)s''"
  by (simp add: where_text_def)

lemma where_text_only_max:
  "where_text [] [] (PStr ''Todas'') (PStr ''Todas'') None (Some x) m
     = '' AND '' @ m Capital_social @ '' <= %(capital_max)s''"
  by (simp add: where_text_def)

lemma where_binds_only_min:
  "where_binds [] [] (PStr ''Todas'') (PStr ''Todas'') (Some x) None = [(''capital_min'', PFloat x)]"
  by (simp add: where_binds_def)

lemma where_binds_only_max:
  "where_binds [] [] (PStr ''Todas'') (PStr ''Todas'') None (Some x) = [(''capital_max'', PFloat x)]"
  by (simp add: where_binds_def)

text \<open>
  Claim C10. A capital bound of 0 is treated differently by the operations. The row query
  and the count query add the capital predicate and bind the value whenever the bound is
  not \<open>None\<close>, for the value 0 as for any other. \<open>is_heavy_query\<close> tests the bounds by
  truthiness: a bound other than 0 makes the filter set not heavy, while the bound 0 gives
  the same answer as no bound. So a filter set whose only constraint is a zero capital
  bound is classified as potentially heavy, like the filter set with no constraint,
  although its queries carry a capital predicate.
\<close>

theorem zero_capital_bound_heavy_yet_filtered:
  "is_heavy_query [] [] (PStr ''Todas'') (PStr ''Todas'') (Some 0) None
   \<and> is_heavy_query [] [] (PStr ''Todas'') (PStr ''Todas'') None (Some 0)
   \<and> is_heavy_query [] [] (PStr ''Todas'') (PStr ''Todas'') None None
   \<and> build_query [] [] (PStr ''Todas'') (PStr ''Todas'') (Some x) None limit offset m =
       (select_head m @ ''WHERE 1=1'' @ [CHR 0x0A] @ ''    '' @
          '' AND '' @ m Capital_social @ '' >= %(capital_min)s'' @
          '' ORDER BY '' @ m Razao_social @
          '' LIMIT '' @ str_int limit @ '' OFFSET '' @ str_int (min offset MAX_OFFSET),
        [(''capital_min'', PFloat x)])
   \<and> build_query [] [] (PStr ''Todas'') (PStr ''Todas'') None (Some x) limit offset m =
       (select_head m @ ''WHERE 1=1'' @ [CHR 0x0A] @ ''    '' @
          '' AND '' @ m Capital_social @ '' <= %(capital_max)s'' @
          '' ORDER BY '' @ m Razao_social @
          '' LIMIT '' @ str_int limit @ '' OFFSET '' @ str_int (min offset MAX_OFFSET),
        [(''capital_max'', PFloat x)])
   \<and> count_query [] [] (PStr ''Todas'') (PStr ''Todas'') (Some x) None m =
       (''SELECT COUNT(*) as total FROM empresas WHERE 1=1'' @
          '' AND '' @ m Capital_social @ '' >= %(capital_min)s'',
        [(''capital_min'', PFloat x)])
   \<and> count_query [] [] (PStr ''Todas'') (PStr ''Todas'') None (Some x) m =
       (''SELECT COUNT(*) as total FROM empresas WHERE 1=1'' @
          '' AND '' @ m Capital_social @ '' <= %(capital_max)s'',
        [(''capital_max'', PFloat x)])
   \<and> is_heavy_query b p n q (Some 0) cmax = is_heavy_query b p n q None cmax
   \<and> is_heavy_query b p n q cmin (Some 0) = is_heavy_query b p n q cmin None
   \<and> (x \<noteq> 0 \<longrightarrow> \<not> is_heavy_query b p n q (Some x) cmax)
   \<and> (x \<noteq> 0 \<longrightarrow> \<not> is_heavy_query b p n q cmin (Some x))"
proof -
  have m: "(if offset > MAX_OFFSET then MAX_OFFSET else offset) = min offset MAX_OFFSET"
    by (simp add: min_def)
  have h: "is_heavy_query [] [] (PStr ''Todas'') (PStr ''Todas'') (Some 0) None"
    "is_heavy_query [] [] (PStr ''Todas'') (PStr ''Todas'') None (Some 0)"
    "is_heavy_query [] [] (PStr ''Todas'') (PStr ''Todas'') None None"
    "is_heavy_query b p n q (Some 0) cmax = is_heavy_query b p n q None cmax"
    "is_heavy_query b p n q cmin (Some 0) = is_heavy_query b p n q cmin None"
    by (simp_all add: is_heavy_query_iff)
  have t: "x \<noteq> 0 \<longrightarrow> \<not> is_heavy_query b p n q (Some x) cmax"
    "x \<noteq> 0 \<longrightarrow> \<not> is_heavy_query b p n q cmin (Some x)"
    by (simp_all add: is_heavy_query_iff)
  have q: "build_query [] [] (PStr ''Todas'') (PStr ''Todas'') (Some x) None limit offset m =
       (select_head m @ ''WHERE 1=1'' @ [CHR 0x0A] @ ''    '' @
          '' AND '' @ m Capital_social @ '' >= %(capital_min)s'' @
          '' ORDER BY '' @ m Razao_social @
          '' LIMIT '' @ str_int limit @ '' OFFSET '' @ str_int (min offset MAX_OFFSET),
        [(''capital_min'', PFloat x)])"
    "build_query [] [] (PStr ''Todas'') (PStr ''Todas'') None (Some x) limit offset m =
       (select_head m @ ''WHERE 1=1'' @ [CHR 0x0A] @ ''    '' @
          '' AND '' @ m Capital_social @ '' <= %(capital_max)s'' @
          '' ORDER BY '' @ m Razao_social @
          '' LIMIT '' @ str_int limit @ '' OFFSET '' @ str_int (min offset MAX_OFFSET),
        [(''capital_max'', PFloat x)])"
    "count_query [] [] (PStr ''Todas'') (PStr ''Todas'') (Some x) None m =
       (''SELECT COUNT(*) as total FROM empresas WHERE 1=1'' @
          '' AND '' @ m Capital_social @ '' >= %(capital_min)s'',
        [(''capital_min'', PFloat x)])"
    "count_query [] [] (PStr ''Todas'') (PStr ''Todas'') None (Some x) m =
       (''SELECT COUNT(*) as total FROM empresas WHERE 1=1'' @
          '' AND '' @ m Capital_social @ '' <= %(capital_max)s'',
        [(''capital_max'', PFloat x)])"
    by (simp_all only: build_query_nf count_query_nf where_text_only_min where_text_only_max
          where_binds_only_min where_binds_only_max m append_assoc)
  from h t q show ?thesis by (intro conjI)
qed

theorem zero_capital_bound_heavy_yet_filtered_witness:
  "is_heavy_query [] [] (PStr ''Todas'') (PStr ''Todas'') (Some 0) None
   \<and> is_heavy_query [] [] (PStr ''Todas'') (PStr ''Todas'') None None
   \<and> \<not> is_heavy_query [] [] (PStr ''Todas'') (PStr ''Todas'') (Some 1000) None
   \<and> \<not> is_heavy_query [] [] (PStr ''Todas'') (PStr ''Todas'') None (Some 1000)
   \<and> count_query [] [] (PStr ''Todas'') (PStr ''Todas'') (Some 0) None (\<lambda>c. ''capital_social'') =
       (''SELECT COUNT(*) as total FROM empresas WHERE 1=1 AND capital_social >= %(capital_min)s'',
        [(''capital_min'', PFloat 0)])"
  using
    zero_capital_bound_heavy_yet_filtered [where x = 0 and m = "\<lambda>c. ''capital_social''"
      and limit = 20 and offset = 0 and b = "[]" and p = "[]" and n = "PStr ''Todas''"
      and q = "PStr ''Todas''" and cmin = None and cmax = None]
    zero_capital_bound_heavy_yet_filtered [where x = 1000 and m = "\<lambda>c. ''capital_social''"
      and limit = 20 and offset = 0 and b = "[]" and p = "[]" and n = "PStr ''Todas''"
      and q = "PStr ''Todas''" and cmin = None and cmax = None]
  by simp

section \<open>The offset bound\<close>

text \<open>
  Claim C5. The offset written into the query text of \<open>build_query\<close> is the minimum of
  the offset argument and \<open>MAX_OFFSET\<close> = 10000, hence at most \<open>MAX_OFFSET\<close> for every
  argument. The offset that the page computes from the page number and the page size is
  (page - 1) * size clamped to \<open>MAX_OFFSET\<close>, with the limited-navigation notice exactly
  when the product exceeds it; the builder leaves that offset as it is.
\<close>

theorem emitted_offset_bounded:
  "fst (build_query b p n q cmin cmax limit offset m) =
     select_head m @ ''WHERE 1=1'' @ [CHR 0x0A] @ ''    '' @
       fst (where_clause b p n q cmin cmax m) @
       '' ORDER BY '' @ m Razao_social @
       '' LIMIT '' @ str_int limit @ '' OFFSET '' @ str_int (min offset MAX_OFFSET)
   \<and> min offset MAX_OFFSET \<le> MAX_OFFSET
   \<and> MAX_OFFSET = 10000
   \<and> fst (page_offset page registros) = min ((page - 1) * registros) MAX_OFFSET
   \<and> fst (page_offset page registros) \<le> MAX_OFFSET
   \<and> snd (page_offset page registros) =
       (if (page - 1) * registros > MAX_OFFSET then [LimitedNavigation] else [])
   \<and> min (fst (page_offset page registros)) MAX_OFFSET = fst (page_offset page registros)"
proof -
  have m: "(if offset > MAX_OFFSET then MAX_OFFSET else offset) = min offset MAX_OFFSET"
    by (simp add: min_def)
  have q: "fst (build_query b p n q cmin cmax limit offset m) =
     select_head m @ ''WHERE 1=1'' @ [CHR 0x0A] @ ''    '' @
       fst (where_clause b p n q cmin cmax m) @
       '' ORDER BY '' @ m Razao_social @
       '' LIMIT '' @ str_int limit @ '' OFFSET '' @ str_int (min offset MAX_OFFSET)"
    by (simp only: build_query_nf where_clause_nf fst_conv m)
  have po: "fst (page_offset page registros) = min ((page - 1) * registros) MAX_OFFSET"
    "snd (page_offset page registros) =
       (if (page - 1) * registros > MAX_OFFSET then [LimitedNavigation] else [])"
    by (simp_all add: page_offset_def Let_def min_def)
  have c: "MAX_OFFSET = 10000" by (simp add: MAX_OFFSET_def)
  from q po c show ?thesis by simp
qed

theorem emitted_offset_bounded_witness:
  "fst (page_offset 751 20) = 10000 \<and> snd (page_offset 751 20) = [LimitedNavigation]
   \<and> fst (build_query [] [] (PStr ''Todas'') (PStr ''Todas'') None None 20 15000 (\<lambda>c. ''c''))
      = select_head (\<lambda>c. ''c'') @ ''WHERE 1=1'' @ [CHR 0x0A] @ ''    '' @
        '' ORDER BY c LIMIT 20 OFFSET 10000''"
  using emitted_offset_bounded [of "[]" "[]" "PStr ''Todas''" "PStr ''Todas''" None None 20 15000 "\<lambda>c. ''c''" 751 20]
  by (simp add: where_clause_nf where_text_def MAX_OFFSET_def str_eval)

section \<open>The inferred total\<close>

text \<open>
  Claim C7. When no exact count is computed (no filter submission and the page is the
  first), the total is offset + rows returned exactly when the page read has fewer rows
  than the page size, and unknown (\<open>None\<close>) when the page is full.
\<close>

theorem total_inferred_without_count:
  assumes "\<not> aplicar" and "page \<le> 1"
  shows "total_filtrado engine aplicar page b p n q cmin cmax m df registros offset =
           (Inr (if int (df_len df) < registros then Some (PInt (offset + int (df_len df))) else None), [])"
  using assms by (simp add: total_filtrado_def)

theorem total_inferred_without_count_witness:
  "\<not> False \<and> (1::int) \<le> 1
   \<and> total_filtrado None False 1 [] [] (PStr ''Todas'') (PStr ''Todas'') None None (\<lambda>c. ''c'')
        [(''cnpj_basico'', [PStr ''1'', PStr ''2'', PStr ''3''])] 20 0 = (Inr (Some (PInt 3)), [])
   \<and> total_filtrado None False 1 [] [] (PStr ''Todas'') (PStr ''Todas'') None None (\<lambda>c. ''c'')
        [(''cnpj_basico'', [PStr ''1'', PStr ''2'', PStr ''3''])] 3 0 = (Inr None, [])"
  using total_inferred_without_count [of False 1 None "[]" "[]" "PStr ''Todas''" "PStr ''Todas''" None None "\<lambda>c. ''c''"
          "[(''cnpj_basico'', [PStr ''1'', PStr ''2'', PStr ''3''])]" 20 0]
        total_inferred_without_count [of False 1 None "[]" "[]" "PStr ''Todas''" "PStr ''Todas''" None None "\<lambda>c. ''c''"
          "[(''cnpj_basico'', [PStr ''1'', PStr ''2'', PStr ''3''])]" 3 0]
  by (simp add: df_len_def)

section \<open>The number of pages and the navigation buttons\<close>

text \<open>
  On page 1 a run without a filter submission infers the total from the page it read, a
  total that is unknown or at most one page: the navigation block is not rendered and a
  click that this run has to handle is lost.
\<close>

lemma first_page_click_lost:
  "handle_click b
     (controles df (if int (df_len df) < registros then Some (0 + int (df_len df)) else None)
        registros 1) 1 = 1"
  by (simp add: handle_click_def controles_def)

lemma pages_ceiling:
  fixes c s :: int
  assumes "1 \<le> c" and "1 \<le> s"
  shows "(c - 1) div s + 1 = \<lceil>real_of_int c / real_of_int s\<rceil>"
proof -
  define k where "k = (c - 1) div s"
  define r where "r = (c - 1) mod s"
  have d: "c - 1 = s * k + r" unfolding k_def r_def by simp
  have r: "0 \<le> r" "r < s" using assms unfolding r_def by simp_all
  have lo: "k * s < c" using d r by (simp add: algebra_simps)
  have hi: "c \<le> (k + 1) * s" using d r by (simp add: algebra_simps)
  have s: "0 < real_of_int s" using assms by simp
  have "real_of_int k < real_of_int c / real_of_int s"
    using lo s by (simp add: pos_less_divide_eq flip: of_int_mult)
  moreover have "real_of_int c / real_of_int s \<le> real_of_int (k + 1)"
    using hi s by (simp add: pos_divide_le_eq flip: of_int_mult of_int_add)
  ultimately have "\<lceil>real_of_int c / real_of_int s\<rceil> = k + 1"
    by (intro ceiling_unique) simp_all
  then show ?thesis unfolding k_def by simp
qed


text \<open>
  Claim C8. For an exact count c of at least 1 and a page size s of at least 1 the number
  of pages is the minimum of the ceiling of c / s and \<open>MAX_PAGINAS\<close>. Where the
  navigation block is shown, the next and last buttons are disabled once the current page
  has reached that number and the first and previous buttons are disabled on page 1; a
  disabled button leaves the page where it is.
\<close>

theorem num_paginas_and_controls:
  assumes "1 \<le> c" and "1 \<le> s"
  shows "num_paginas c s = min \<lceil>real_of_int c / real_of_int s\<rceil> MAX_PAGINAS
     \<and> (\<not> df_empty df \<and> s < c \<longrightarrow>
          controles df (Some c) s page =
            Some \<lparr> total_paginas = num_paginas c s,
                   primeira_disabled = (page = 1),
                   anterior_disabled = (page = 1),
                   proxima_disabled = (page \<ge> num_paginas c s),
                   ultima_disabled = (page \<ge> num_paginas c s),
                   limite_info = (num_paginas c s \<ge> MAX_PAGINAS) \<rparr>
          \<and> (page \<ge> num_paginas c s \<longrightarrow>
                clicar Proxima (the (controles df (Some c) s page)) page = page
              \<and> clicar Ultima (the (controles df (Some c) s page)) page = page)
          \<and> (page = 1 \<longrightarrow>
                clicar Primeira (the (controles df (Some c) s page)) page = page
              \<and> clicar Anterior (the (controles df (Some c) s page)) page = page))"
proof -
  have n: "num_paginas c s = min \<lceil>real_of_int c / real_of_int s\<rceil> MAX_PAGINAS"
    unfolding num_paginas_def using pages_ceiling [OF assms] by simp
  have k: "controles df (Some c) s pg =
            Some \<lparr> total_paginas = num_paginas c s,
                   primeira_disabled = (pg = 1),
                   anterior_disabled = (pg = 1),
                   proxima_disabled = (pg \<ge> num_paginas c s),
                   ultima_disabled = (pg \<ge> num_paginas c s),
                   limite_info = (num_paginas c s \<ge> MAX_PAGINAS) \<rparr>"
    if "\<not> df_empty df" "s < c" for pg
    using that assms by (simp add: controles_def Let_def)
  show ?thesis
  proof (intro conjI impI)
    show "num_paginas c s = min \<lceil>real_of_int c / real_of_int s\<rceil> MAX_PAGINAS" by (rule n)
  qed (simp_all add: k)
qed

theorem num_paginas_and_controls_witness:
  "(1::int) \<le> 45 \<and> (1::int) \<le> 20
   \<and> num_paginas 45 20 = 3
   \<and> controles [(''cnpj_basico'', [PStr ''1''])] (Some 45) 20 3 =
        Some \<lparr> total_paginas = 3, primeira_disabled = False, anterior_disabled = False,
               proxima_disabled = True, ultima_disabled = True, limite_info = False \<rparr>"
  using num_paginas_and_controls [of 45 20 "[(''cnpj_basico'', [PStr ''1''])]" 3]
  by (simp add: num_paginas_def MAX_PAGINAS_def df_empty_def df_len_def)

section \<open>A failed query\<close>

text \<open>
  Claim C9. When the call to the database raises, \<open>run_query\<close> returns the empty frame
  and the query time 0 and reports the error, and \<open>get_filtered_count\<close> returns the
  count 0; the same holds without an engine, and the count is 0 for every empty frame.
\<close>

theorem failed_query_yields_nothing:
  "(e query ps = Raises err \<longrightarrow>
      run_query (Some e) query ps = ((empty_frame, 0), [QueryError err]))
   \<and> run_query None query ps = ((empty_frame, 0), [])
   \<and> df_empty empty_frame \<and> df_len empty_frame = 0
   \<and> (e (fst (count_query b p n q cmin cmax m)) (Some (snd (count_query b p n q cmin cmax m))) = Raises err \<longrightarrow>
      get_filtered_count (Some e) b p n q cmin cmax m = (Inr (PInt 0), [QueryError err]))
   \<and> get_filtered_count None b p n q cmin cmax m = (Inr (PInt 0), [])
   \<and> (e (fst (count_query b p n q cmin cmax m)) (Some (snd (count_query b p n q cmin cmax m))) = Frame df t
        \<and> df_empty df \<longrightarrow>
      get_filtered_count (Some e) b p n q cmin cmax m = (Inr (PInt 0), []))"
proof -
  have e: "df_empty empty_frame" "df_len empty_frame = 0"
    by (simp_all add: df_empty_def df_len_def empty_frame_def)
  show ?thesis
    by (simp add: run_query_def get_filtered_count_def split_def e)
qed

theorem failed_query_yields_nothing_witness:
  "run_query (Some (\<lambda>query ps. Raises ''timeout'')) ''SELECT 1'' None
     = ((empty_frame, 0), [QueryError ''timeout''])
   \<and> get_filtered_count (Some (\<lambda>query ps. Raises ''timeout'')) ''ACME'' [] (PStr ''Todas'')
        (PStr ''Todas'') None None (\<lambda>c. ''c'') = (Inr (PInt 0), [QueryError ''timeout''])"
  using failed_query_yields_nothing [of "\<lambda>query ps. Raises ''timeout''" "''SELECT 1''" None "''timeout''"
          "''ACME''" "[]" "PStr ''Todas''" "PStr ''Todas''" None None "\<lambda>c. ''c''"]
  by simp

section \<open>The substring filter and the pattern it binds\<close>

lemma like_match_percent_only: "like_match ''%'' x"
  by (induction x) simp_all

lemma like_match_percent:
  "like_match (CHR ''%'' # ps) x = (\<exists>k\<le>length x. like_match ps (drop k x))"
proof (induction x)
  case Nil
  then show ?case by simp
next
  case (Cons c cs)
  have "(\<exists>k\<le>length (c # cs). like_match ps (drop k (c # cs)))
      = (like_match ps (c # cs) \<or> (\<exists>k\<le>length cs. like_match ps (drop k cs)))"
  proof
    assume "\<exists>k\<le>length (c # cs). like_match ps (drop k (c # cs))"
    then obtain k where k: "k \<le> length (c # cs)" "like_match ps (drop k (c # cs))" by blast
    show "like_match ps (c # cs) \<or> (\<exists>k\<le>length cs. like_match ps (drop k cs))"
    proof (cases k)
      case 0
      with k show ?thesis by simp
    next
      case (Suc j)
      with k have "j \<le> length cs" "like_match ps (drop j cs)" by simp_all
      then show ?thesis by blast
    qed
  next
    assume "like_match ps (c # cs) \<or> (\<exists>k\<le>length cs. like_match ps (drop k cs))"
    then show "\<exists>k\<le>length (c # cs). like_match ps (drop k (c # cs))"
    proof
      assume "like_match ps (c # cs)"
      then have "0 \<le> length (c # cs) \<and> like_match ps (drop 0 (c # cs))" by simp
      then show ?thesis by blast
    next
      assume "\<exists>k\<le>length cs. like_match ps (drop k cs)"
      then obtain k where "k \<le> length cs" "like_match ps (drop k cs)" by blast
      then have "Suc k \<le> length (c # cs) \<and> like_match ps (drop (Suc k) (c # cs))" by simp
      then show ?thesis by blast
    qed
  qed
  with Cons show ?case by simp
qed

lemma like_match_literal:
  assumes "\<forall>c\<in>set s. \<not> like_special c"
  shows "like_match (s @ ps) x = (\<exists>rest. x = s @ rest \<and> like_match ps rest)"
  using assms
proof (induction s arbitrary: x)
  case Nil
  then show ?case by simp
next
  case (Cons a s)
  then have a: "a \<noteq> CHR ''%''" "a \<noteq> CHR ''_''" "a \<noteq> CHR 0x5C"
    and s: "\<forall>c\<in>set s. \<not> like_special c"
    by (auto simp: like_special_def)
  show ?case
  proof (cases x)
    case Nil
    with a show ?thesis by simp
  next
    case (Cons c cs)
    with a Cons.IH [OF s, of cs] show ?thesis by auto
  qed
qed

lemma starts_with_iff: "starts_with s x = (\<exists>rest. x = s @ rest)"
  by (induction s x rule: starts_with.induct) auto

lemma contains_iff: "contains s x = (\<exists>k\<le>length x. \<exists>rest. drop k x = s @ rest)"
proof (induction x)
  case Nil
  then show ?case by auto
next
  case (Cons c cs)
  have "(\<exists>k\<le>length (c # cs). \<exists>rest. drop k (c # cs) = s @ rest)
      = ((\<exists>rest. c # cs = s @ rest) \<or> (\<exists>k\<le>length cs. \<exists>rest. drop k cs = s @ rest))"
  proof
    assume "\<exists>k\<le>length (c # cs). \<exists>rest. drop k (c # cs) = s @ rest"
    then obtain k rest where k: "k \<le> length (c # cs)" "drop k (c # cs) = s @ rest" by blast
    show "(\<exists>rest. c # cs = s @ rest) \<or> (\<exists>k\<le>length cs. \<exists>rest. drop k cs = s @ rest)"
    proof (cases k)
      case 0
      with k show ?thesis by simp
    next
      case (Suc j)
      with k have "j \<le> length cs" "drop j cs = s @ rest" by simp_all
      then show ?thesis by blast
    qed
  next
    assume "(\<exists>rest. c # cs = s @ rest) \<or> (\<exists>k\<le>length cs. \<exists>rest. drop k cs = s @ rest)"
    then show "\<exists>k\<le>length (c # cs). \<exists>rest. drop k (c # cs) = s @ rest"
    proof
      assume "\<exists>rest. c # cs = s @ rest"
      then obtain rest where "drop 0 (c # cs) = s @ rest" by auto
      then show ?thesis by blast
    next
      assume "\<exists>k\<le>length cs. \<exists>rest. drop k cs = s @ rest"
      then obtain k rest where "k \<le> length cs" "drop k cs = s @ rest" by blast
      then have "Suc k \<le> length (c # cs) \<and> drop (Suc k) (c # cs) = s @ rest" by simp
      then show ?thesis by blast
    qed
  qed
  with Cons show ?case by (simp add: starts_with_iff)
qed

lemma like_match_is_contains:
  assumes "\<forall>c\<in>set s. \<not> like_special c"
  shows "like_match (''%'' @ s @ ''%'') x = contains s x"
proof -
  have "like_match (''%'' @ s @ ''%'') x = (\<exists>k\<le>length x. like_match (s @ ''%'') (drop k x))"
    by (simp add: like_match_percent)
  also have "\<dots> = (\<exists>k\<le>length x. \<exists>rest. drop k x = s @ rest)"
    by (simp add: like_match_literal [OF assms] like_match_percent_only)
  finally show ?thesis by (simp add: contains_iff)
qed

lemma map_of_bind_portes_other:
  assumes "\<And>i. ''porte_'' @ str_nat i \<noteq> k"
  shows "map_of (bind_portes portes ps) k = map_of ps k"
proof -
  have "map_of (fold (\<lambda>(i, porte) acc. AList.update (''porte_'' @ str_nat i) porte acc) xs ps) k
      = map_of ps k" for xs :: "(nat \<times> pyval) list"
  proof (induction xs arbitrary: ps)
    case Nil
    then show ?case by simp
  next
    case (Cons x xs)
    obtain i v where x: "x = (i, v)" by (cases x)
    have ne: "k \<noteq> ''porte_'' @ str_nat i" by (rule not_sym) (rule assms)
    have "map_of (AList.update (''porte_'' @ str_nat i) v ps) k = map_of ps k"
      by (simp only: update_conv' fun_upd_other [OF ne])
    then show ?case by (simp only: x fold_simps split_conv Cons.IH)
  qed
  then show ?thesis unfolding bind_portes_def .
qed

lemma where_binds_busca_nome:
  assumes "s \<noteq> []"
  shows "map_of (where_binds s p n q cmin cmax) ''busca_nome'' = Some (PStr (''%'' @ s @ ''%''))"
  using assms
  by (simp add: where_binds_def update_conv' map_of_bind_portes_other)

text \<open>
  Claim C4, as the code has it. For every non-empty substring \<open>s\<close> both builders bind
  \<open>busca_nome\<close> to \<open>%\<close> followed by \<open>s\<close> followed by \<open>%\<close>: the two outer markers come
  from the builder and \<open>s\<close> is copied as it is, without escaping. When \<open>s\<close> has no
  \<open>%\<close>, \<open>_\<close> or backslash, the pattern matches exactly the names that contain \<open>s\<close>.
\<close>

theorem busca_nome_bound_verbatim:
  assumes "s \<noteq> []"
  shows "map_of (snd (build_query s p n q cmin cmax limit offset m)) ''busca_nome''
           = Some (PStr (''%'' @ s @ ''%''))
       \<and> map_of (snd (count_query s p n q cmin cmax m)) ''busca_nome''
           = Some (PStr (''%'' @ s @ ''%''))
       \<and> ((\<forall>c\<in>set s. \<not> like_special c) \<longrightarrow>
            (\<forall>name. like_match (''%'' @ s @ ''%'') name = contains s name))"
proof (intro conjI impI allI)
  show "map_of (snd (build_query s p n q cmin cmax limit offset m)) ''busca_nome''
           = Some (PStr (''%'' @ s @ ''%''))"
    by (simp only: build_query_nf snd_conv where_binds_busca_nome [OF assms])
  show "map_of (snd (count_query s p n q cmin cmax m)) ''busca_nome''
           = Some (PStr (''%'' @ s @ ''%''))"
    by (simp only: count_query_nf snd_conv where_binds_busca_nome [OF assms])
  show "like_match (''%'' @ s @ ''%'') name = contains s name"
    if "\<forall>c\<in>set s. \<not> like_special c" for name
    using that by (rule like_match_is_contains)
qed

theorem busca_nome_bound_verbatim_witness:
  "''ACME'' \<noteq> []
   \<and> map_of (snd (build_query ''ACME'' [] (PStr ''Todas'') (PStr ''Todas'') None None 20 0 (\<lambda>c. ''c'')))
        ''busca_nome'' = Some (PStr ''%ACME%'')
   \<and> like_match ''%ACME%'' ''ACME LTDA'' \<and> contains ''ACME'' ''ACME LTDA''
   \<and> \<not> like_match ''%ACME%'' ''ACNE SA''"
  using busca_nome_bound_verbatim [of "''ACME''" "[]" "PStr ''Todas''" "PStr ''Todas''" None None 20 0 "\<lambda>c. ''c''"]
  by (simp add: like_special_def)

text \<open>
  Claim C4 as stated fails for a substring with a wildcard of its own: for \<open>A%B\<close> the
  bound pattern is \<open>%A%B%\<close>, which matches \<open>AXB\<close>, a name that does not contain
  \<open>A%B\<close>.
\<close>

theorem user_wildcard_changes_match:
  "map_of (snd (build_query ''A%B'' [] (PStr ''Todas'') (PStr ''Todas'') None None 20 0 (\<lambda>c. ''c'')))
     ''busca_nome'' = Some (PStr ''%A%B%'')
   \<and> like_match ''%A%B%'' ''AXB''
   \<and> \<not> contains ''A%B'' ''AXB''"
  by (simp add: build_query_nf where_binds_def)

section \<open>Schema resolution: all six fields or nothing\<close>

lemma nome_real_exists:
  assumes "lower opcao \<in> set (colunas_disponiveis df)"
  shows "\<exists>nome tipo. find (\<lambda>(column_name, _). lower column_name = lower opcao) df = Some (nome, tipo)"
proof -
  from assms obtain a b where r: "(a, b) \<in> set df" "lower a = lower opcao"
    unfolding colunas_disponiveis_def by auto
  then have "\<exists>x\<in>set df. (\<lambda>(column_name, _). lower column_name = lower opcao) x"
    by (intro bexI [of _ "(a, b)"]) simp_all
  then have "find (\<lambda>(column_name, _). lower column_name = lower opcao) df \<noteq> None"
    unfolding find_None_iff by blast
  then show ?thesis by auto
qed

lemma primeira_opcao_None:
  "primeira_opcao df opcoes = None \<longleftrightarrow>
     (\<forall>opcao\<in>set opcoes. lower opcao \<notin> set (colunas_disponiveis df))"
proof (induction opcoes)
  case Nil
  then show ?case by simp
next
  case (Cons opcao opcoes)
  show ?case
  proof (cases "lower opcao \<in> set (colunas_disponiveis df)")
    case True
    with nome_real_exists [OF True] show ?thesis by auto
  next
    case False
    with Cons show ?thesis by simp
  qed
qed

lemma primeira_opcao_Some:
  assumes "primeira_opcao df opcoes = Some nome"
  shows "\<exists>i<length opcoes. \<exists>tipo.
           lower (opcoes ! i) \<in> set (colunas_disponiveis df)
         \<and> (\<forall>j<i. lower (opcoes ! j) \<notin> set (colunas_disponiveis df))
         \<and> find (\<lambda>(column_name, _). lower column_name = lower (opcoes ! i)) df = Some (nome, tipo)"
  using assms
proof (induction opcoes)
  case Nil
  then show ?case by simp
next
  case (Cons opcao opcoes)
  show ?case
  proof (cases "lower opcao \<in> set (colunas_disponiveis df)")
    case True
    with Cons.prems obtain tipo where
      "find (\<lambda>(column_name, _). lower column_name = lower opcao) df = Some (nome, tipo)"
      by auto
    with True have "0 < length (opcao # opcoes) \<and>
         lower ((opcao # opcoes) ! 0) \<in> set (colunas_disponiveis df)
         \<and> (\<forall>j<0. lower ((opcao # opcoes) ! j) \<notin> set (colunas_disponiveis df))
         \<and> find (\<lambda>(column_name, _). lower column_name = lower ((opcao # opcoes) ! 0)) df = Some (nome, tipo)"
      by simp
    then show ?thesis by blast
  next
    case False
    with Cons.prems have "primeira_opcao df opcoes = Some nome" by simp
    from Cons.IH [OF this] obtain i tipo where i: "i < length opcoes"
      "lower (opcoes ! i) \<in> set (colunas_disponiveis df)"
      "\<forall>j<i. lower (opcoes ! j) \<notin> set (colunas_disponiveis df)"
      "find (\<lambda>(column_name, _). lower column_name = lower (opcoes ! i)) df = Some (nome, tipo)"
      by blast
    have "\<forall>j<Suc i. lower ((opcao # opcoes) ! j) \<notin> set (colunas_disponiveis df)"
    proof (intro allI impI)
      fix j assume "j < Suc i"
      then show "lower ((opcao # opcoes) ! j) \<notin> set (colunas_disponiveis df)"
        using False i(3) by (cases j) simp_all
    qed
    with i have "Suc i < length (opcao # opcoes) \<and>
         lower ((opcao # opcoes) ! Suc i) \<in> set (colunas_disponiveis df)
         \<and> (\<forall>j<Suc i. lower ((opcao # opcoes) ! j) \<notin> set (colunas_disponiveis df))
         \<and> find (\<lambda>(column_name, _). lower column_name = lower ((opcao # opcoes) ! Suc i)) df = Some (nome, tipo)"
      by simp
    then show ?thesis by blast
  qed
qed

text \<open>The outer loop: each key is new, so each assignment appends.\<close>

lemma fst_resolvidas: "fst ` set (resolvidas df cn) \<subseteq> fst ` set cn"
  unfolding resolvidas_def by (induction cn) (auto simp: map_filter_simps split: option.splits)

lemma outer_loop:
  assumes "distinct (map fst cn)" and "fst ` set acc \<inter> fst ` set cn = {}"
  shows "fold (\<lambda>(campo, opcoes) acc.
                      case primeira_opcao df opcoes of
                        Some nome_real \<Rightarrow> AList.update campo nome_real acc
                      | None \<Rightarrow> acc) cn acc = acc @ resolvidas df cn"
  using assms
proof (induction cn arbitrary: acc)
  case Nil
  then show ?case by (simp add: resolvidas_def map_filter_simps)
next
  case (Cons x cn)
  obtain campo opcoes where x: "x = (campo, opcoes)" by (cases x)
  from Cons.prems x have new: "campo \<notin> fst ` set acc" and d: "distinct (map fst cn)"
    and nin: "campo \<notin> fst ` set cn" and disj: "fst ` set acc \<inter> fst ` set cn = {}"
    by auto
  show ?case
  proof (cases "primeira_opcao df opcoes")
    case None
    with Cons.IH [OF d disj] x show ?thesis
      by (simp add: resolvidas_def map_filter_simps)
  next
    case (Some nome)
    have "fst ` set (acc @ [(campo, nome)]) \<inter> fst ` set cn = {}"
      using disj nin by auto
    from Cons.IH [OF d this] Some x new show ?thesis
      by (simp add: resolvidas_def map_filter_simps update_new_key)
  qed
qed

lemma length_resolvidas:
  "length (resolvidas df cn) \<le> length cn"
  "length (resolvidas df cn) = length cn \<longleftrightarrow>
     (\<forall>(campo, opcoes)\<in>set cn. primeira_opcao df opcoes \<noteq> None)"
proof -
  show le: "length (resolvidas df cn) \<le> length cn" for cn
    unfolding resolvidas_def by (induction cn) (auto simp: map_filter_simps split: option.splits)
  show "length (resolvidas df cn) = length cn \<longleftrightarrow>
     (\<forall>(campo, opcoes)\<in>set cn. primeira_opcao df opcoes \<noteq> None)"
  proof (induction cn)
    case Nil
    then show ?case by (simp add: resolvidas_def map_filter_simps)
  next
    case (Cons x cn)
    obtain campo opcoes where x: "x = (campo, opcoes)" by (cases x)
    show ?case
    proof (cases "primeira_opcao df opcoes")
      case None
      then have "resolvidas df (x # cn) = resolvidas df cn"
        by (simp add: x resolvidas_def map_filter_simps)
      with le [of cn] None x show ?thesis by auto
    next
      case (Some nome)
      then have "resolvidas df (x # cn) = (campo, nome) # resolvidas df cn"
        by (simp add: x resolvidas_def map_filter_simps)
      with Cons Some x show ?thesis by auto
    qed
  qed
qed

lemma map_of_resolvidas:
  assumes "distinct (map fst cn)" and "(campo, opcoes) \<in> set cn"
  shows "map_of (resolvidas df cn) campo = primeira_opcao df opcoes"
  using assms
proof (induction cn)
  case Nil
  then show ?case by simp
next
  case (Cons x cn)
  obtain c os where x: "x = (c, os)" by (cases x)
  show ?case
  proof (cases "c = campo")
    case True
    with Cons.prems x have "os = opcoes" by (auto simp: image_iff)
    moreover have "map_of (resolvidas df cn) campo = None"
      using Cons.prems x True fst_resolvidas [of df cn] by (auto simp: map_of_eq_None_iff)
    ultimately show ?thesis using x True
      by (cases "primeira_opcao df opcoes") (simp_all add: resolvidas_def map_filter_simps)
  next
    case False
    with Cons x show ?thesis
      by (cases "primeira_opcao df os") (auto simp: resolvidas_def map_filter_simps)
  qed
qed

lemma colunas_necessarias_facts:
  "distinct (map fst colunas_necessarias)" "length colunas_necessarias = 6"
  by (simp_all add: colunas_necessarias_def)

lemma get_column_mapping_eq:
  "get_column_mapping df =
     (if df = [] then None
      else if \<forall>(campo, opcoes)\<in>set colunas_necessarias. primeira_opcao df opcoes \<noteq> None
           then Some (resolvidas df colunas_necessarias) else None)"
proof -
  have "fold (\<lambda>(campo, opcoes) acc.
                      case primeira_opcao df opcoes of
                        Some nome_real \<Rightarrow> AList.update campo nome_real acc
                      | None \<Rightarrow> acc) colunas_necessarias [] = resolvidas df colunas_necessarias"
    using outer_loop [OF colunas_necessarias_facts(1), of "[]" df] by simp
  then show ?thesis
    unfolding get_column_mapping_def Let_def
    using length_resolvidas(2) [of df colunas_necessarias]
    by (simp only: colunas_necessarias_facts(2) split: if_splits) 
qed

text \<open>
  Claim C6. \<open>get_column_mapping\<close> returns a mapping only when each of the six fields
  resolves: the mapping has six entries, and for each field the recorded name is the
  \<open>column_name\<close>, as the table spells it, of the first column that equals, after
  lower-casing both, the first candidate of the field's priority list found among the
  lower-cased column names. The result is \<open>None\<close> exactly when the structure is empty or
  some field has no matching candidate, and then the page stops after the mapping error:
  no query is built or run, whatever the engine and the inputs are. When the structure
  query itself fails the structure is empty, and the page stops in the same way, with the
  error of the failed query shown at each of the two reads of the structure.
\<close>

theorem get_column_mapping_all_or_nothing:
  "(get_column_mapping df = Some d \<longrightarrow>
      length d = 6
    \<and> (\<forall>(campo, opcoes)\<in>set colunas_necessarias. \<exists>i<length opcoes. \<exists>nome tipo.
          map_of d campo = Some nome
        \<and> lower (opcoes ! i) \<in> set (colunas_disponiveis df)
        \<and> (\<forall>j<i. lower (opcoes ! j) \<notin> set (colunas_disponiveis df))
        \<and> find (\<lambda>(column_name, _). lower column_name = lower (opcoes ! i)) df = Some (nome, tipo)))
   \<and> (get_column_mapping df = None \<longleftrightarrow>
        df = [] \<or> (\<exists>(campo, opcoes)\<in>set colunas_necessarias.
                     \<forall>opcao\<in>set opcoes. lower opcao \<notin> set (colunas_disponiveis df)))
   \<and> (get_column_mapping df = None \<longrightarrow>
        main (StructureRows df) engine inp =
          Stopped (MappingError # (if df = [] then [StructureUnavailable] else [])))
   \<and> main (StructureRaises err) engine inp =
        Stopped [QueryError err, MappingError, QueryError err, StructureUnavailable]"
proof (intro conjI impI)
  assume some: "get_column_mapping df = Some d"
  then have d: "d = resolvidas df colunas_necessarias"
    and all: "\<forall>(campo, opcoes)\<in>set colunas_necessarias. primeira_opcao df opcoes \<noteq> None"
    by (simp_all add: get_column_mapping_eq split: if_splits)
  from all show "length d = 6"
    using length_resolvidas(2) [of df colunas_necessarias]
    by (simp add: d colunas_necessarias_facts(2))
  show "\<forall>(campo, opcoes)\<in>set colunas_necessarias. \<exists>i<length opcoes. \<exists>nome tipo.
          map_of d campo = Some nome
        \<and> lower (opcoes ! i) \<in> set (colunas_disponiveis df)
        \<and> (\<forall>j<i. lower (opcoes ! j) \<notin> set (colunas_disponiveis df))
        \<and> find (\<lambda>(column_name, _). lower column_name = lower (opcoes ! i)) df = Some (nome, tipo)"
  proof (intro ballI, clarify)
    fix campo opcoes
    assume mem: "(campo, opcoes) \<in> set colunas_necessarias"
    with all obtain nome where nome: "primeira_opcao df opcoes = Some nome" by auto
    have "map_of d campo = Some nome"
      using map_of_resolvidas [OF colunas_necessarias_facts(1) mem, of df] nome d by simp
    with primeira_opcao_Some [OF nome]
    show "\<exists>i<length opcoes. \<exists>nome tipo.
          map_of d campo = Some nome
        \<and> lower (opcoes ! i) \<in> set (colunas_disponiveis df)
        \<and> (\<forall>j<i. lower (opcoes ! j) \<notin> set (colunas_disponiveis df))
        \<and> find (\<lambda>(column_name, _). lower column_name = lower (opcoes ! i)) df = Some (nome, tipo)"
      by blast
  qed
next
  show "get_column_mapping df = None \<longleftrightarrow>
        df = [] \<or> (\<exists>(campo, opcoes)\<in>set colunas_necessarias.
                     \<forall>opcao\<in>set opcoes. lower opcao \<notin> set (colunas_disponiveis df))"
    unfolding get_column_mapping_eq
    by (auto simp: primeira_opcao_None [symmetric])
next
  assume "get_column_mapping df = None"
  then show "main (StructureRows df) engine inp =
          Stopped (MappingError # (if df = [] then [StructureUnavailable] else []))"
    by (simp add: main_def get_table_structure_def)
next
  have "get_column_mapping [] = None"
    by (simp add: get_column_mapping_def)
  then show "main (StructureRaises err) engine inp =
        Stopped [QueryError err, MappingError, QueryError err, StructureUnavailable]"
    by (simp add: main_def get_table_structure_def)
qed

lemma char_lower_table:
  "char_lower CHR ''A'' = CHR ''a''"
  "char_lower CHR ''B'' = CHR ''b''"
  "char_lower CHR ''C'' = CHR ''c''"
  "char_lower CHR ''D'' = CHR ''d''"
  "char_lower CHR ''E'' = CHR ''e''"
  "char_lower CHR ''F'' = CHR ''f''"
  "char_lower CHR ''G'' = CHR ''g''"
  "char_lower CHR ''H'' = CHR ''h''"
  "char_lower CHR ''I'' = CHR ''i''"
  "char_lower CHR ''J'' = CHR ''j''"
  "char_lower CHR ''K'' = CHR ''k''"
  "char_lower CHR ''L'' = CHR ''l''"
  "char_lower CHR ''M'' = CHR ''m''"
  "char_lower CHR ''N'' = CHR ''n''"
  "char_lower CHR ''O'' = CHR ''o''"
  "char_lower CHR ''P'' = CHR ''p''"
  "char_lower CHR ''Q'' = CHR ''q''"
  "char_lower CHR ''R'' = CHR ''r''"
  "char_lower CHR ''S'' = CHR ''s''"
  "char_lower CHR ''T'' = CHR ''t''"
  "char_lower CHR ''U'' = CHR ''u''"
  "char_lower CHR ''V'' = CHR ''v''"
  "char_lower CHR ''W'' = CHR ''w''"
  "char_lower CHR ''X'' = CHR ''x''"
  "char_lower CHR ''Y'' = CHR ''y''"
  "char_lower CHR ''Z'' = CHR ''z''"
  "char_lower CHR ''a'' = CHR ''a''"
  "char_lower CHR ''b'' = CHR ''b''"
  "char_lower CHR ''c'' = CHR ''c''"
  "char_lower CHR ''d'' = CHR ''d''"
  "char_lower CHR ''e'' = CHR ''e''"
  "char_lower CHR ''f'' = CHR ''f''"
  "char_lower CHR ''g'' = CHR ''g''"
  "char_lower CHR ''h'' = CHR ''h''"
  "char_lower CHR ''i'' = CHR ''i''"
  "char_lower CHR ''j'' = CHR ''j''"
  "char_lower CHR ''k'' = CHR ''k''"
  "char_lower CHR ''l'' = CHR ''l''"
  "char_lower CHR ''m'' = CHR ''m''"
  "char_lower CHR ''n'' = CHR ''n''"
  "char_lower CHR ''o'' = CHR ''o''"
  "char_lower CHR ''p'' = CHR ''p''"
  "char_lower CHR ''q'' = CHR ''q''"
  "char_lower CHR ''r'' = CHR ''r''"
  "char_lower CHR ''s'' = CHR ''s''"
  "char_lower CHR ''t'' = CHR ''t''"
  "char_lower CHR ''u'' = CHR ''u''"
  "char_lower CHR ''v'' = CHR ''v''"
  "char_lower CHR ''w'' = CHR ''w''"
  "char_lower CHR ''x'' = CHR ''x''"
  "char_lower CHR ''y'' = CHR ''y''"
  "char_lower CHR ''z'' = CHR ''z''"
  "char_lower CHR ''_'' = CHR ''_''"
  by (simp_all add: char_lower_def)


theorem get_column_mapping_all_or_nothing_witness:
  "get_column_mapping
     [(''CNPJ'', ''text''), (''Nome'', ''text''), (''natureza'', ''text''),
      (''Qualificacao'', ''text''), (''CAPITAL'', ''numeric''), (''Porte'', ''text'')]
   = Some [(Cnpj, ''CNPJ''), (Razao_social, ''Nome''), (Natureza_juridica, ''natureza''),
           (Qualificacao, ''Qualificacao''), (Capital_social, ''CAPITAL''), (Porte, ''Porte'')]
   \<and> get_column_mapping [(''cnpj'', ''text''), (''nome'', ''text'')] = None
   \<and> main (StructureRows [(''cnpj'', ''text''), (''nome'', ''text'')]) None
        \<lparr> busca_nome = ''ACME'', portes_selecionados = [], natureza_selecionada = PStr ''Todas'',
          qualificacao_selecionada = PStr ''Todas'', capital_min = None, capital_max = None,
          registros_por_pagina = 20, aplicar_filtros = True, current_page = 1 \<rparr>
     = Stopped [MappingError]"
proof -
  have a: "get_column_mapping
     [(''CNPJ'', ''text''), (''Nome'', ''text''), (''natureza'', ''text''),
      (''Qualificacao'', ''text''), (''CAPITAL'', ''numeric''), (''Porte'', ''text'')]
   = Some [(Cnpj, ''CNPJ''), (Razao_social, ''Nome''), (Natureza_juridica, ''natureza''),
           (Qualificacao, ''Qualificacao''), (Capital_social, ''CAPITAL''), (Porte, ''Porte'')]"
    by (simp add: get_column_mapping_def colunas_necessarias_def colunas_disponiveis_def
          lower_def char_lower_table)
  have b: "get_column_mapping [(''cnpj'', ''text''), (''nome'', ''text'')] = None"
    by (simp add: get_column_mapping_def colunas_necessarias_def colunas_disponiveis_def
          lower_def char_lower_table)
  have c: "main (StructureRows [(''cnpj'', ''text''), (''nome'', ''text'')]) None
        \<lparr> busca_nome = ''ACME'', portes_selecionados = [], natureza_selecionada = PStr ''Todas'',
          qualificacao_selecionada = PStr ''Todas'', capital_min = None, capital_max = None,
          registros_por_pagina = 20, aplicar_filtros = True, current_page = 1 \<rparr>
     = Stopped [MappingError]"
    using b
      get_column_mapping_all_or_nothing [of "[(''cnpj'', ''text''), (''nome'', ''text'')]"
        "[(Cnpj, ''cnpj'')]" None
        "\<lparr> busca_nome = ''ACME'', portes_selecionados = [], natureza_selecionada = PStr ''Todas'',
          qualificacao_selecionada = PStr ''Todas'', capital_min = None, capital_max = None,
          registros_por_pagina = 20, aplicar_filtros = True, current_page = 1 \<rparr>"]
    by simp
  from a b c show ?thesis by (simp only: simp_thms)
qed

end
